theory Spec2Isabelle
  imports Main
begin

section \<open>Text\<close>

text \<open>
  A Python \<open>str\<close> is modelled as a \<open>string\<close>, a list of 8-bit characters read as the
  code points 0 to 255. Log text with code points beyond 255 is outside the model. The
  character classes below are those of Python's \<open>re\<close> and \<open>str\<close> on that range.
\<close>

definition isspace :: "char \<Rightarrow> bool" where
  "isspace c = (let n = (of_char c :: nat)
                in (9 \<le> n \<and> n \<le> 13) \<or> (28 \<le> n \<and> n \<le> 32) \<or> n = 133 \<or> n = 160)"

definition isdigit :: "char \<Rightarrow> bool" where
  "isdigit c = (let n = (of_char c :: nat) in 48 \<le> n \<and> n \<le> 57)"

definition isupper :: "char \<Rightarrow> bool" where
  "isupper c = (let n = (of_char c :: nat)
                in (65 \<le> n \<and> n \<le> 90) \<or> (192 \<le> n \<and> n \<le> 214) \<or> (216 \<le> n \<and> n \<le> 222))"

definition isword :: "char \<Rightarrow> bool" where
  "isword c = (let n = (of_char c :: nat)
               in (48 \<le> n \<and> n \<le> 57) \<or> (65 \<le> n \<and> n \<le> 90) \<or> n = 95 \<or> (97 \<le> n \<and> n \<le> 122)
                  \<or> n = 170 \<or> n = 178 \<or> n = 179 \<or> n = 181 \<or> n = 185 \<or> n = 186
                  \<or> (188 \<le> n \<and> n \<le> 190) \<or> (192 \<le> n \<and> n \<le> 214)
                  \<or> (216 \<le> n \<and> n \<le> 246) \<or> (248 \<le> n \<and> n \<le> 255))"

text \<open>\<open>str.lower\<close> on one character: an upper-case letter moves up by 32 (bit 5 is set).\<close>

definition lower_char :: "char \<Rightarrow> char" where
  "lower_char c = (if isupper c
                   then (case c of Char b0 b1 b2 b3 b4 b5 b6 b7 \<Rightarrow> Char b0 b1 b2 b3 b4 True b6 b7)
                   else c)"

definition lower :: "string \<Rightarrow> string" where
  "lower s = map lower_char s"

definition strip :: "string \<Rightarrow> string" where
  "strip s = rev (dropWhile isspace (rev (dropWhile isspace s)))"

fun startswith :: "string \<Rightarrow> string \<Rightarrow> bool" where
  "startswith s [] = True"
| "startswith [] (p # ps) = False"
| "startswith (c # cs) (p # ps) = (c = p \<and> startswith cs ps)"

definition endswith :: "string \<Rightarrow> string \<Rightarrow> bool" where
  "endswith s p = startswith (rev s) (rev p)"

text \<open>\<open>sub in s\<close> on strings.\<close>

fun str_in :: "string \<Rightarrow> string \<Rightarrow> bool" where
  "str_in sub [] = (sub = [])"
| "str_in sub (c # cs) = (startswith (c # cs) sub \<or> str_in sub cs)"

text \<open>\<open>s.split(sep)\<close> for a separator of one character.\<close>

fun split :: "char \<Rightarrow> string \<Rightarrow> string list" where
  "split sep [] = [[]]"
| "split sep (c # cs) =
     (if c = sep then [] # split sep cs
      else (case split sep cs of [] \<Rightarrow> [[c]] | w # ws \<Rightarrow> (c # w) # ws))"

fun join :: "string \<Rightarrow> string list \<Rightarrow> string" where
  "join sep [] = []"
| "join sep [x] = x"
| "join sep (x # y # ys) = x @ sep @ join sep (y # ys)"

section \<open>Regular expressions\<close>

text \<open>
  The patterns of the program are sequences of one-character items, each taken once,
  zero or more times (\<open>*\<close>) or one or more times (\<open>+\<close>), greedily and with backtracking.
  \<open>match_here\<close> matches a pattern at the start of a string and returns the text
  consumed by each item.
\<close>

datatype quant = One | Star | Plus

type_synonym atom = "(char \<Rightarrow> bool) \<times> quant"

function match_here :: "atom list \<Rightarrow> string \<Rightarrow> string list option" where
  "match_here [] s = Some []"
| "match_here ((p, One) # r) [] = None"
| "match_here ((p, One) # r) (c # cs) =
     (if p c then map_option ((#) [c]) (match_here r cs) else None)"
| "match_here ((p, Plus) # r) [] = None"
| "match_here ((p, Plus) # r) (c # cs) =
     (if p c
      then (case match_here ((p, Star) # r) cs of
              Some (m # ms) \<Rightarrow> Some ((c # m) # ms)
            | _ \<Rightarrow> None)
      else None)"
| "match_here ((p, Star) # r) [] = map_option ((#) []) (match_here r [])"
| "match_here ((p, Star) # r) (c # cs) =
     (if p c
      then (case match_here ((p, Star) # r) cs of
              Some (m # ms) \<Rightarrow> Some ((c # m) # ms)
            | _ \<Rightarrow> map_option ((#) []) (match_here r (c # cs)))
      else map_option ((#) []) (match_here r (c # cs)))"
  by pat_completeness auto
termination
  by (relation "measure (\<lambda>(r, s). length r + length s)") auto

text \<open>\<open>re.search\<close>: the leftmost position where the pattern matches.\<close>

fun search :: "atom list \<Rightarrow> string \<Rightarrow> (nat \<times> string list) option" where
  "search p [] = map_option (Pair 0) (match_here p [])"
| "search p (c # cs) =
     (case match_here p (c # cs) of
        Some ms \<Rightarrow> Some (0, ms)
      | None \<Rightarrow> map_option (\<lambda>(i, ms). (Suc i, ms)) (search p cs))"

text \<open>
  \<open>re.findall\<close>: the matches from left to right, each search starting where the last
  match ended. Every pattern of the program consumes at least one character; after an
  empty match the scan moves on by one character.
\<close>

function findall_items :: "atom list \<Rightarrow> string \<Rightarrow> string list list" where
  "findall_items p s =
     (case search p s of
        None \<Rightarrow> []
      | Some (i, ms) \<Rightarrow>
          ms # (if s = [] then []
                else findall_items p (drop (i + max 1 (length (concat ms))) s)))"
  by pat_completeness auto
termination
proof (relation "measure (\<lambda>(p, s). length s)")
  fix p :: "atom list" and s :: string and i :: nat and ms :: "string list"
  assume "s \<noteq> []"
  then have "0 < length s" by simp
  then have "length s - (i + max 1 (length (concat ms))) < length s" by arith
  then show "((p, drop (i + max 1 (length (concat ms))) s), (p, s))
             \<in> measure (\<lambda>(p, s). length s)" by simp
qed simp

declare findall_items.simps [simp del]

text \<open>The text of the items \<open>i..<j\<close> of a match: a capture group, or the whole match.\<close>

definition match_group :: "nat \<Rightarrow> nat \<Rightarrow> string list \<Rightarrow> string" where
  "match_group i j ms = concat (take (j - i) (drop i ms))"

definition findall :: "atom list \<Rightarrow> string \<Rightarrow> string list" where
  "findall p s = map concat (findall_items p s)"

definition findall_group :: "atom list \<Rightarrow> nat \<Rightarrow> nat \<Rightarrow> string \<Rightarrow> string list" where
  "findall_group p i j s = map (match_group i j) (findall_items p s)"

definition search_group :: "atom list \<Rightarrow> nat \<Rightarrow> nat \<Rightarrow> string \<Rightarrow> string option" where
  "search_group p i j s = map_option (\<lambda>(k, ms). match_group i j ms) (search p s)"

definition lit :: "string \<Rightarrow> atom list" where
  "lit s = map (\<lambda>c. ((\<lambda>x. x = c), One)) s"

text \<open>A literal under \<open>re.IGNORECASE\<close>.\<close>

definition ilit :: "string \<Rightarrow> atom list" where
  "ilit s = map (\<lambda>c. ((\<lambda>x. lower_char x = lower_char c), One)) s"

definition dot :: "char \<Rightarrow> bool" where
  "dot c = (c \<noteq> CHR 0x0A)"

definition nonspace :: "char \<Rightarrow> bool" where
  "nonspace c = (\<not> isspace c)"

section \<open>Files\<close>

datatype node = Text string | Unreadable | Dir

type_synonym filesystem = "string \<rightharpoonup> node"

datatype error =
    FileNotFoundError string
  | ReadError string
  | CalledProcessError string
  | ValueError
  | ServiceError

text \<open>\<open>open(path).read()\<close>: the text, or the exception raised.\<close>

definition read_text :: "filesystem \<Rightarrow> string \<Rightarrow> error + string" where
  "read_text fs path =
     (case fs path of
        None \<Rightarrow> Inl (FileNotFoundError path)
      | Some (Text content) \<Rightarrow> Inr content
      | Some _ \<Rightarrow> Inl (ReadError path))"

text \<open>
  \<open>os.path.exists(path)\<close>. A path that ends in slashes exists when the path without
  them is a directory. Other ways in which two texts name one file (\<open>.\<close>, \<open>..\<close>, doubled
  slashes inside the path, links) are not modelled.
\<close>

definition rstrip_slashes :: "string \<Rightarrow> string" where
  "rstrip_slashes path = rev (dropWhile (\<lambda>c. c = CHR ''/'') (rev path))"

definition path_exists :: "filesystem \<Rightarrow> string \<Rightarrow> bool" where
  "path_exists fs path =
     (case fs path of
        Some n \<Rightarrow> True
      | None \<Rightarrow> endswith path ''/'' \<and> fs (rstrip_slashes path) = Some Dir)"

section \<open>Repository Reference Extractor\<close>

subsection \<open>\<open>extract_repos_from_log\<close> of \<open>jenkins_fetch_and_vectorize.py\<close>\<close>

text \<open>
  \<open>list(set(repos))\<close> enumerates a set in an order Python does not specify. The
  enumeration is a parameter \<open>list_of_set\<close> of the model; \<open>set_order\<close> says what every
  enumeration satisfies.
\<close>

definition set_order :: "(string list \<Rightarrow> string list) \<Rightarrow> bool" where
  "set_order list_of_set = (\<forall>xs. distinct (list_of_set xs) \<and> set (list_of_set xs) = set xs)"

definition github_pattern :: "atom list" where
  "github_pattern = lit ''https://github.com/'' @ [(nonspace, Plus)] @ lit ''.git''"

definition cloning_pattern :: "atom list" where
  "cloning_pattern =
     lit ''Cloning repository '' @ lit ''https://github.com/'' @ [(nonspace, Plus)]"

definition valid_repo :: "string \<Rightarrow> bool" where
  "valid_repo repo =
     (startswith repo ''https://github.com/''
      \<and> endswith repo ''.git''
      \<and> length (split CHR ''/'' repo) \<ge> 5
      \<and> \<not> str_in ''api.git'' repo)"

definition additional_repos :: "string list" where
  "additional_repos =
     [''https://github.com/Meesho/devops-lib.git'',
      ''https://github.com/Meesho/ringmaster-backend.git'',
      ''https://github.com/Meesho/ringmaster-frontend.git'']"

fun append_missing :: "string list \<Rightarrow> string list \<Rightarrow> string list" where
  "append_missing valid_repos [] = valid_repos"
| "append_missing valid_repos (repo # rest) =
     append_missing (if repo \<in> set valid_repos then valid_repos else valid_repos @ [repo]) rest"

definition first_line_repos :: "string \<Rightarrow> string list" where
  "first_line_repos content =
     (case split CHR 0x0A content of
        [] \<Rightarrow> []
      | l # ls \<Rightarrow>
          (let first_line = strip l
           in if first_line \<noteq> [] \<and> str_in '','' first_line
              then map strip (split CHR '','' first_line)
              else []))"

definition extract_repos_from_log ::
  "(string list \<Rightarrow> string list) \<Rightarrow> filesystem \<Rightarrow> string \<Rightarrow> string list" where
  "extract_repos_from_log list_of_set fs log_path =
     (case read_text fs log_path of
        Inl e \<Rightarrow> []
      | Inr content \<Rightarrow>
          (let repos = first_line_repos content;
               repos = repos @ findall github_pattern content;
               repos = repos @ findall_group cloning_pattern 19 39 content;
               repos = list_of_set repos;
               valid_repos = filter valid_repo repos
           in append_missing valid_repos additional_repos))"

subsection \<open>\<open>JenkinsAnalyzer._extract_repos_from_log\<close> of \<open>rag_pipeline.py\<close>\<close>

definition repo_pattern :: "atom list" where
  "repo_pattern = lit ''https://'' @ [(nonspace, Plus)] @ lit ''.git''"

definition cloning_pattern_any :: "atom list" where
  "cloning_pattern_any = lit ''Cloning repository '' @ lit ''https://'' @ [(nonspace, Plus)]"

definition first_line_tokens :: "string \<Rightarrow> string list" where
  "first_line_tokens content =
     (case split CHR 0x0A content of
        [] \<Rightarrow> []
      | l # ls \<Rightarrow>
          (if str_in ''github.com'' l \<or> str_in ''http'' l
           then filter (\<lambda>t. t \<noteq> []) (map strip (split CHR '','' l))
           else []))"

definition JenkinsAnalyzer_extract_repos_from_log ::
  "(string list \<Rightarrow> string list) \<Rightarrow> filesystem \<Rightarrow> string \<Rightarrow> string list" where
  "JenkinsAnalyzer_extract_repos_from_log list_of_set fs log_path =
     (case read_text fs log_path of
        Inl e \<Rightarrow> []
      | Inr content \<Rightarrow>
          (let repos = first_line_tokens content;
               repos = repos @ findall github_pattern content;
               repos = repos @ findall repo_pattern content;
               repos = repos @ findall_group cloning_pattern_any 19 28 content;
               repos = list_of_set repos
           in filter (\<lambda>t. t \<noteq> []) (map strip repos)))"

text \<open>A log that mentions a repository on another host.\<close>

definition gitlab_files :: filesystem where
  "gitlab_files =
     [''logs/failure/build_9.txt''
        \<mapsto> Text ''build log\<newline>fetch https://gitlab.com/a/b.git now'']"

section \<open>Repository Materializer\<close>

text \<open>
  The source control provider is outside the program. One run of \<open>git clone\<close> is a
  parameter of the model: it may depend on everything done so far, and it either returns
  an exit code, is cut off by the timeout, or cannot be started. The flag says whether
  the run leaves something at the target path; a run that returns exit code 0 has
  created the target.
\<close>

datatype git_result = Returned int bool | TimeoutExpired bool | GitOSError

record world =
  files :: filesystem
  fetches :: "(string \<times> string) list"

type_synonym git = "world \<Rightarrow> string \<Rightarrow> string \<Rightarrow> git_result"

definition leaves_target :: "git_result \<Rightarrow> bool" where
  "leaves_target r =
     (case r of
        Returned rc left \<Rightarrow> rc = 0 \<or> left
      | TimeoutExpired left \<Rightarrow> left
      | GitOSError \<Rightarrow> False)"

text \<open>\<open>subprocess.run(['git', 'clone', url, target])\<close>: every run is recorded in \<open>fetches\<close>.\<close>

definition subprocess_run_git_clone ::
  "git \<Rightarrow> world \<Rightarrow> string \<Rightarrow> string \<Rightarrow> git_result \<times> world" where
  "subprocess_run_git_clone git w url target =
     (let r = git w url target
      in (r, w\<lparr>files := (if leaves_target r then (files w)(target \<mapsto> Dir) else files w),
                fetches := fetches w @ [(url, target)]\<rparr>))"

subsection \<open>\<open>clone_repository\<close> of \<open>jenkins_fetch_and_vectorize.py\<close>\<close>

definition clone_repository :: "git \<Rightarrow> world \<Rightarrow> string \<Rightarrow> string \<Rightarrow> bool \<times> world" where
  "clone_repository git w repo_url target_dir =
     (if path_exists (files w) target_dir then (True, w)
      else (case subprocess_run_git_clone git w repo_url target_dir of
              (Returned returncode left, w') \<Rightarrow> (if returncode = 0 then (True, w') else (False, w'))
            | (TimeoutExpired left, w') \<Rightarrow> (False, w')
            | (GitOSError, w') \<Rightarrow> (False, w')))"

subsection \<open>\<open>clone_repo\<close> of \<open>vector_indexer.py\<close>\<close>

text \<open>\<open>s.replace(old, new)\<close>.\<close>

function replace :: "string \<Rightarrow> string \<Rightarrow> string \<Rightarrow> string" where
  "replace old new s =
     (if old = [] then new @ concat (map (\<lambda>c. c # new) s)
      else (case s of
              [] \<Rightarrow> []
            | c # cs \<Rightarrow>
                if startswith s old then new @ replace old new (drop (length old) s)
                else c # replace old new cs))"
  by pat_completeness auto
termination
  by (relation "measure (\<lambda>(old, new, s). length s)") auto

declare replace.simps [simp del]

definition REPO_DIR :: string where
  "REPO_DIR = ''cloned_repos''"

definition os_path_join :: "string \<Rightarrow> string \<Rightarrow> string" where
  "os_path_join a b =
     (if startswith b ''/'' then b
      else if a = [] \<or> endswith a ''/'' then a @ b
      else a @ ''/'' @ b)"

text \<open>
  \<open>clone_repo\<close> runs git with \<open>check=True\<close> and no timeout: a run that fails raises, and
  the exception leaves the function.
\<close>

definition clone_repo :: "git \<Rightarrow> world \<Rightarrow> string \<Rightarrow> (error + string) \<times> world" where
  "clone_repo git w url =
     (let w1 = (if \<not> path_exists (files w) REPO_DIR
                then w\<lparr>files := (files w)(REPO_DIR \<mapsto> Dir)\<rparr> else w);
          repo_name = replace ''.git'' [] (last (split CHR ''/'' url));
          repo_path = os_path_join REPO_DIR repo_name
      in if \<not> path_exists (files w1) repo_path
         then (case subprocess_run_git_clone git w1 url repo_path of
                 (Returned returncode left, w2) \<Rightarrow>
                   (if returncode = 0 then (Inr repo_path, w2)
                    else (Inl (CalledProcessError url), w2))
               | (TimeoutExpired left, w2) \<Rightarrow> (Inl (CalledProcessError url), w2)
               | (GitOSError, w2) \<Rightarrow> (Inl (CalledProcessError url), w2))
         else (Inr repo_path, w1))"

text \<open>
  A provider whose every run fails and leaves nothing behind, one whose every run
  succeeds, and a fresh world.
\<close>

definition git_unreachable :: git where
  "git_unreachable w url target = Returned 128 False"

definition git_reachable :: git where
  "git_reachable w url target = Returned 0 True"

definition empty_world :: world where
  "empty_world = \<lparr>files = Map.empty, fetches = []\<rparr>"

section \<open>Semantic Index Store\<close>

record document =
  page_content :: string
  metadata :: "(string \<times> string) list"

text \<open>
  The file tree, the text loader, the text splitter and the embedding service are
  outside the program and are parameters of the model. A stored index is the list of
  the chunks it holds.
\<close>

record indexer_env =
  rglob :: "string \<Rightarrow> string \<Rightarrow> string list"
  loader_load :: "string \<Rightarrow> error + document list"
  split_documents :: "document list \<Rightarrow> error + document list"
  faiss_saves :: "document list \<Rightarrow> string \<Rightarrow> bool"

type_synonym vectorstores = "string \<rightharpoonup> document list"

definition index_extensions :: "string list" where
  "index_extensions =
     [''**/*.py'', ''**/*.md'', ''**/*.txt'', ''**/*.js'', ''**/*.ts'', ''**/*.json'',
      ''**/*.yaml'', ''**/*.yml'', ''**/*.Jenkinsfile'', ''**/*.Dockerfile'']"

text \<open>\<open>d.update(m)\<close> on a dictionary kept as an association list.\<close>

fun dict_update :: "(string \<times> string) list \<Rightarrow> (string \<times> string) list \<Rightarrow> (string \<times> string) list" where
  "dict_update d [] = d"
| "dict_update d ((k, v) # m) =
     dict_update (if k \<in> fst ` set d then map (\<lambda>(k', v'). if k' = k then (k', v) else (k', v')) d
                  else d @ [(k, v)]) m"

definition chunks_of_file ::
  "indexer_env \<Rightarrow> (string \<times> string) list option \<Rightarrow> string \<Rightarrow> document list" where
  "chunks_of_file env meta file =
     (case loader_load env file of
        Inl e \<Rightarrow> []
      | Inr docs \<Rightarrow>
          (case split_documents env docs of
             Inl e \<Rightarrow> []
           | Inr split_docs \<Rightarrow>
               (case meta of
                  Some (kv # kvs) \<Rightarrow>
                    map (\<lambda>d. d\<lparr>metadata := dict_update (metadata d) (kv # kvs)\<rparr>) split_docs
                | _ \<Rightarrow> split_docs)))"

definition collect_documents ::
  "indexer_env \<Rightarrow> string \<Rightarrow> (string \<times> string) list option \<Rightarrow> document list" where
  "collect_documents env directory_path meta =
     concat (map (\<lambda>ext. concat (map (chunks_of_file env meta) (rglob env directory_path ext)))
                 index_extensions)"

definition chunk_and_store_to_vector_db ::
  "indexer_env \<Rightarrow> vectorstores \<Rightarrow> string \<Rightarrow> string \<Rightarrow> (string \<times> string) list option
     \<Rightarrow> vectorstores" where
  "chunk_and_store_to_vector_db env stores directory_path vectorstore_path meta =
     (let documents = collect_documents env directory_path meta
      in if documents = [] then stores
         else if faiss_saves env documents vectorstore_path
              then stores(vectorstore_path \<mapsto> documents)
              else stores)"

text \<open>A tree with one Python file, loaded as one document and split into one chunk.\<close>

definition one_file_env :: indexer_env where
  "one_file_env =
     \<lparr>rglob = (\<lambda>dir ext. if dir = ''cloned_repos/app'' \<and> ext = ''**/*.py''
                         then [''cloned_repos/app/main.py''] else []),
      loader_load = (\<lambda>file. Inr [\<lparr>page_content = ''print(1)'',
                                  metadata = [(''source'', file)]\<rparr>]),
      split_documents = (\<lambda>docs. Inr docs),
      faiss_saves = (\<lambda>docs path. True)\<rparr>"

definition old_index :: "document list" where
  "old_index = [\<lparr>page_content = ''print(0)'', metadata = [(''source'', ''old.py'')]\<rparr>]"

section \<open>Build Metadata Extractor\<close>

record datetime =
  year :: nat
  month :: nat
  day :: nat
  hour :: nat
  minute :: nat
  second :: nat

definition int_of_digits :: "string \<Rightarrow> nat" where
  "int_of_digits s = foldl (\<lambda>a c. 10 * a + (of_char c - 48)) 0 s"

definition is_leap :: "nat \<Rightarrow> bool" where
  "is_leap y = (if y mod 400 = 0 then True else if y mod 100 = 0 then False else y mod 4 = 0)"

definition days_in_month :: "nat \<Rightarrow> nat \<Rightarrow> nat" where
  "days_in_month y m =
     (if m = 2 then (if is_leap y then 29 else 28)
      else if m = 4 \<or> m = 6 \<or> m = 9 \<or> m = 11 then 30
      else 31)"

text \<open>
  \<open>datetime.strptime(timestamp, '%Y%m%d_%H%M%S')\<close> on a text of the shape the program
  passes to it: eight digits, an underscore, six digits. Every field then has its full
  width, and the call raises \<open>ValueError\<close> unless the fields form a date and a time.
\<close>

definition strptime :: "string \<Rightarrow> error + datetime" where
  "strptime timestamp =
     (let y = int_of_digits (take 4 timestamp);
          m = int_of_digits (take 2 (drop 4 timestamp));
          d = int_of_digits (take 2 (drop 6 timestamp));
          H = int_of_digits (take 2 (drop 9 timestamp));
          M = int_of_digits (take 2 (drop 11 timestamp));
          S = int_of_digits (take 2 (drop 13 timestamp))
      in if 1 \<le> y \<and> 1 \<le> m \<and> m \<le> 12 \<and> 1 \<le> d \<and> d \<le> days_in_month y m
            \<and> H \<le> 23 \<and> M \<le> 59 \<and> S \<le> 59
         then Inr \<lparr>year = y, month = m, day = d, hour = H, minute = M, second = S\<rparr>
         else Inl ValueError)"

definition digit_char :: "nat \<Rightarrow> char" where
  "digit_char n = ''0123456789'' ! (n mod 10)"

function str_nat :: "nat \<Rightarrow> string" where
  "str_nat n = (if n < 10 then [digit_char n] else str_nat (n div 10) @ [digit_char n])"
  by pat_completeness auto
termination
  by (relation "measure id") auto

declare str_nat.simps [simp del]

definition pad2 :: "nat \<Rightarrow> string" where
  "pad2 n = [digit_char (n div 10), digit_char n]"

text \<open>
  \<open>dt.strftime('%Y-%m-%d %H:%M:%S')\<close>. The year is written without leading zeros, as
  the C library of Linux does; other platforms pad it to four digits.
\<close>

definition strftime :: "datetime \<Rightarrow> string" where
  "strftime dt =
     str_nat (year dt) @ ''-'' @ pad2 (month dt) @ ''-'' @ pad2 (day dt) @ '' ''
       @ pad2 (hour dt) @ '':'' @ pad2 (minute dt) @ '':'' @ pad2 (second dt)"

text \<open>The dictionary \<open>build_info\<close>: a field that is \<open>None\<close> is a key that is absent.\<close>

record build_info =
  build_number :: "string option"
  build_time :: "string option"
  started_by :: "string option"
  status :: "string option"

definition basename :: "string \<Rightarrow> string" where
  "basename path = last (split CHR ''/'' path)"

definition build_number_pattern :: "atom list" where
  "build_number_pattern = lit ''build_'' @ [(isdigit, Plus)]"

definition timestamp_pattern :: "atom list" where
  "timestamp_pattern = replicate 8 (isdigit, One) @ lit ''_'' @ replicate 6 (isdigit, One)"

definition started_by_pattern :: "atom list" where
  "started_by_pattern = lit ''Started by user '' @ [(dot, Plus)]"

definition status_pattern :: "atom list" where
  "status_pattern = lit ''Finished: '' @ [(isword, Plus)]"

definition JenkinsAnalyzer_extract_build_info :: "string \<Rightarrow> string \<Rightarrow> build_info" where
  "JenkinsAnalyzer_extract_build_info log_path log_content =
     (let filename = basename log_path
      in \<lparr>build_number = search_group build_number_pattern 6 7 filename,
          build_time =
            (case search_group timestamp_pattern 0 15 filename of
               None \<Rightarrow> None
             | Some timestamp \<Rightarrow>
                 (case strptime timestamp of
                    Inr dt \<Rightarrow> Some (strftime dt)
                  | Inl e \<Rightarrow> Some ''Unknown'')),
          started_by = search_group started_by_pattern 16 17 log_content,
          status = search_group status_pattern 10 11 log_content\<rparr>)"

section \<open>Diagnosis Pipeline\<close>

subsection \<open>\<open>MongoDBAnalyzer\<close> of \<open>mongodb_analyzer.py\<close>\<close>

text \<open>
  The two report headers carry a pictograph beyond code point 255; it is written as the
  four bytes of its UTF-8 form.
\<close>

definition mongodb_header :: string where
  "mongodb_header =
     ''## '' @ [CHR 0xF0, CHR 0x9F, CHR 0x8D, CHR 0x83]
       @ '' MongoDB Connection Issue Analysis\<newline>\<newline>''"

definition dns_resolution_failure_text :: string where
  "dns_resolution_failure_text =
     ''**Root Cause**: DNS Resolution Failure\<newline>'' @
     ''- The application cannot resolve the MongoDB service hostname\<newline>'' @
     ''- This is typically a Kubernetes service discovery issue\<newline>\<newline>'' @
     ''**Detailed Analysis**:\<newline>'' @
     ''1. **Service Discovery Issue**: The MongoDB service is not reachable via DNS\<newline>'' @
     ''2. **Network Policy**: There might be network policies blocking access\<newline>'' @
     ''3. **Service Configuration**: The MongoDB service might not be properly configured\<newline>'' @
     ''4. **Namespace Issues**: The service might be in a different namespace\<newline>\<newline>'' @
     ''**Immediate Fix Steps**:\<newline>'' @
     ''```bash\<newline>'' @
     ''# 1. Check if MongoDB service exists\<newline>'' @
     ''kubectl get svc -n mongodb mongodb-central-stg-headless\<newline>\<newline>'' @
     ''# 2. Check service endpoints\<newline>'' @
     ''kubectl get endpoints -n mongodb mongodb-central-stg-headless\<newline>\<newline>'' @
     ''# 3. Test DNS resolution from a pod\<newline>'' @
     ''kubectl run test-dns --image=busybox --rm -it --restart=Never -- nslookup mongodb-central-stg-headless.mongodb.svc.cluster.local\<newline>\<newline>'' @
     ''# 4. Check if MongoDB pods are running\<newline>'' @
     ''kubectl get pods -n mongodb -l app=mongodb\<newline>\<newline>'' @
     ''# 5. Check network policies\<newline>'' @
     ''kubectl get networkpolicies -n mongodb\<newline>'' @
     ''```\<newline>\<newline>''"

definition authentication_failure_text :: string where
  "authentication_failure_text =
     ''**Root Cause**: MongoDB Authentication Failure\<newline>'' @
     ''- The application cannot authenticate with MongoDB\<newline>'' @
     ''- This is typically a credentials or connection string issue\<newline>\<newline>'' @
     ''**Fix Steps**:\<newline>'' @
     ''1. **Check Connection String**: Verify MongoDB connection string format\<newline>'' @
     ''2. **Verify Credentials**: Check username/password in environment variables\<newline>'' @
     ''3. **Check MongoDB Users**: Verify the user exists in MongoDB\<newline>'' @
     ''4. **Check Authentication Database**: Ensure correct auth database\<newline>\<newline>''"

definition connection_timeout_text :: string where
  "connection_timeout_text =
     ''**Root Cause**: MongoDB Connection Timeout\<newline>'' @
     ''- The application cannot establish connection to MongoDB within timeout\<newline>'' @
     ''- This could be due to network issues or MongoDB being overloaded\<newline>\<newline>'' @
     ''**Fix Steps**:\<newline>'' @
     ''1. **Check MongoDB Health**: Verify MongoDB pods are healthy\<newline>'' @
     ''2. **Increase Timeout**: Adjust connection timeout settings\<newline>'' @
     ''3. **Check Network**: Verify network connectivity between pods\<newline>'' @
     ''4. **Check Resource Usage**: Ensure MongoDB has sufficient resources\<newline>\<newline>''"

definition network_unreachable_text :: string where
  "network_unreachable_text =
     ''**Root Cause**: Network Connectivity Issue\<newline>'' @
     ''- The application cannot reach the MongoDB network\<newline>'' @
     ''- This is typically a Kubernetes networking issue\<newline>\<newline>'' @
     ''**Fix Steps**:\<newline>'' @
     ''1. **Check Pod Network**: Verify pod can reach other services\<newline>'' @
     ''2. **Check Service Mesh**: If using Istio/Linkerd, check policies\<newline>'' @
     ''3. **Check Network Policies**: Verify no blocking policies\<newline>'' @
     ''4. **Check DNS**: Verify DNS resolution works\<newline>\<newline>''"

definition general_mongodb_text :: string where
  "general_mongodb_text =
     ''**Root Cause**: General MongoDB Connection Issue\<newline>'' @
     ''- The application cannot connect to MongoDB\<newline>'' @
     ''- This could be due to various network or configuration issues\<newline>\<newline>''"

definition mongodb_closing_text :: string where
  "mongodb_closing_text =
     ''**Common Troubleshooting Steps**:\<newline>'' @
     ''```bash\<newline>'' @
     ''# 1. Check MongoDB service status\<newline>'' @
     ''kubectl get svc -n mongodb\<newline>\<newline>'' @
     ''# 2. Check MongoDB pods\<newline>'' @
     ''kubectl get pods -n mongodb\<newline>\<newline>'' @
     ''# 3. Check MongoDB logs\<newline>'' @
     ''kubectl logs -n mongodb <mongodb-pod-name>\<newline>\<newline>'' @
     ''# 4. Test connectivity from application pod\<newline>'' @
     ''kubectl exec -it <app-pod-name> -- nc -zv mongodb-central-stg-headless.mongodb.svc.cluster.local 27017\<newline>\<newline>'' @
     ''# 5. Check if MongoDB is accessible\<newline>'' @
     ''kubectl exec -it <app-pod-name> -- telnet mongodb-central-stg-headless.mongodb.svc.cluster.local 27017\<newline>'' @
     ''```\<newline>\<newline>'' @
     ''**Prevention Measures**:\<newline>'' @
     ''1. **Health Checks**: Implement proper health checks for MongoDB\<newline>'' @
     ''2. **Connection Pooling**: Use connection pooling to handle connection issues\<newline>'' @
     ''3. **Retry Logic**: Implement retry logic with exponential backoff\<newline>'' @
     ''4. **Monitoring**: Set up monitoring for MongoDB connectivity\<newline>'' @
     ''5. **Documentation**: Document MongoDB connection requirements\<newline>\<newline>'' @
     ''**Priority**: High\<newline>'' @
     ''**Estimated Time**: 30-60 minutes\<newline>'' @
     ''**Impact**: Critical - Application cannot function without database\<newline>\<newline>'' @
     ''**Next Steps**:\<newline>'' @
     ''1. Immediately check MongoDB service status\<newline>'' @
     ''2. Verify network connectivity between application and MongoDB\<newline>'' @
     ''3. Check MongoDB pod logs for any errors\<newline>'' @
     ''4. Test connectivity from application pod\<newline>'' @
     ''5. Update connection string if needed\<newline>''"


text \<open>Each pattern of the analyzer is a signature followed by \<open>.*\<close>.\<close>

definition mongodb_signatures :: "string list" where
  "mongodb_signatures =
     [''MongoServerSelectionError'', ''MongoNetworkError'', ''getaddrinfo ENOTFOUND'',
      ''Connection refused'', ''No primary available'', ''Server selection timeout'',
      ''Authentication failed'', ''Network is unreachable'']"

definition mongodb_error_patterns :: "atom list list" where
  "mongodb_error_patterns = map (\<lambda>s. ilit s @ [(dot, Star)]) mongodb_signatures"

text \<open>\<open>for pattern in patterns: found.extend(re.findall(pattern, content, re.IGNORECASE))\<close>.\<close>

definition findall_each :: "atom list list \<Rightarrow> string \<Rightarrow> string list" where
  "findall_each patterns content = concat (map (\<lambda>pattern. findall pattern content) patterns)"

definition analyze_specific_error :: "string list \<Rightarrow> string \<Rightarrow> string" where
  "analyze_specific_error errors log_content =
     mongodb_header
     @ (if list_ex (str_in ''getaddrinfo ENOTFOUND'') errors then dns_resolution_failure_text
        else if list_ex (str_in ''Authentication failed'') errors then authentication_failure_text
        else if list_ex (str_in ''Server selection timeout'') errors then connection_timeout_text
        else if list_ex (str_in ''Network is unreachable'') errors then network_unreachable_text
        else general_mongodb_text)
     @ mongodb_closing_text"

datatype mongodb_analysis = NotMongoDBIssue | MongoDBIssue "string list" string

definition analyze_mongodb_issue :: "string \<Rightarrow> mongodb_analysis" where
  "analyze_mongodb_issue log_content =
     (let mongodb_errors = findall_each mongodb_error_patterns log_content
      in if mongodb_errors = [] then NotMongoDBIssue
         else MongoDBIssue mongodb_errors (analyze_specific_error mongodb_errors log_content))"

subsection \<open>\<open>JenkinsAnalyzer\<close> of \<open>rag_pipeline.py\<close>\<close>

text \<open>
  The result dictionary. A field of option type that is \<open>None\<close> is a key that the
  dictionary does not have; \<open>success_log_path\<close> may also hold Python's \<open>None\<close>.
\<close>

record diagnosis =
  analysis :: string
  failure_repos :: "string list"
  success_repos :: "string list"
  failure_log_path :: "string option"
  success_log_path :: "string option option"
  analysis_type :: string
  build_info :: "build_info option"
  repository_context_used :: "bool option"

definition local_header :: string where
  "local_header =
     ''## '' @ [CHR 0xF0, CHR 0x9F, CHR 0x94, CHR 0x8D]
       @ '' Local Analysis Results\<newline>\<newline>''"

definition local_mongodb_text :: string where
  "local_mongodb_text =
     ''**Root Cause**: MongoDB Connection Issue\<newline>'' @
     ''- The build failed due to MongoDB connection problems\<newline>'' @
     ''- Error: `getaddrinfo ENOTFOUND mongodb-central-stg-headless.mongodb.svc.cluster.local`\<newline>'' @
     ''- This indicates DNS resolution failure for MongoDB service\<newline>\<newline>'' @
     ''**Fix Instructions**:\<newline>'' @
     ''1. Check if MongoDB service is running in the cluster\<newline>'' @
     ''2. Verify DNS resolution for MongoDB service\<newline>'' @
     ''3. Check network connectivity between pods\<newline>'' @
     ''4. Verify MongoDB service configuration\<newline>'' @
     ''5. Check if the MongoDB service name is correct\<newline>\<newline>'' @
     ''**Specific MongoDB Fix**:\<newline>'' @
     ''1. Check if MongoDB service exists: `kubectl get svc -n mongodb`\<newline>'' @
     ''2. Verify DNS resolution: `nslookup mongodb-central-stg-headless.mongodb.svc.cluster.local`\<newline>'' @
     ''3. Check pod connectivity: `kubectl exec -it <pod-name> -- nslookup mongodb-central-stg-headless.mongodb.svc.cluster.local`\<newline>'' @
     ''4. Verify MongoDB service configuration in Kubernetes\<newline>'' @
     ''5. Check if MongoDB pods are running: `kubectl get pods -n mongodb`\<newline>'' @
     ''6. Check MongoDB service endpoints: `kubectl get endpoints -n mongodb mongodb-central-stg-headless`\<newline>'' @
     ''7. Verify network policies: `kubectl get networkpolicies -n mongodb`\<newline>'' @
     ''8. Check if MongoDB is accessible from the build pod\<newline>\<newline>''"

definition local_authentication_text :: string where
  "local_authentication_text =
     ''**Root Cause**: Authentication/API Key Error\<newline>'' @
     ''- The build failed due to an authentication error\<newline>'' @
     ''- This is likely related to API keys or credentials\<newline>'' @
     ''- Check environment variables and API key configuration\<newline>\<newline>''"

definition local_node_text :: string where
  "local_node_text =
     ''**Root Cause**: Node.js/npm Dependency Issue\<newline>'' @
     ''- The build failed during npm install or node execution\<newline>'' @
     ''- Check package.json and node_modules\<newline>'' @
     ''- Verify all dependencies are properly specified\<newline>\<newline>''"

definition local_docker_text :: string where
  "local_docker_text =
     ''**Root Cause**: Docker/Container Issue\<newline>'' @
     ''- The build failed during Docker operations\<newline>'' @
     ''- Check Dockerfile and container configuration\<newline>'' @
     ''- Verify Docker daemon is running\<newline>'' @
     ''- Check ECR access and permissions\<newline>\<newline>''"

definition local_git_text :: string where
  "local_git_text =
     ''**Root Cause**: Git Repository Issue\<newline>'' @
     ''- The build failed during Git operations\<newline>'' @
     ''- Check repository access and credentials\<newline>'' @
     ''- Verify branch names and commit hashes\<newline>\<newline>''"

definition local_general_text :: string where
  "local_general_text =
     ''**Root Cause**: General Build Failure\<newline>'' @
     ''- The build failed for an unknown reason\<newline>'' @
     ''- Check the error logs for specific details\<newline>\<newline>''"

definition local_closing_text :: string where
  "local_closing_text =
     ''**General Fix Suggestions**:\<newline>'' @
     ''1. Check environment variables and API keys\<newline>'' @
     ''2. Verify repository access and permissions\<newline>'' @
     ''3. Review build configuration files\<newline>'' @
     ''4. Check for dependency conflicts\<newline>'' @
     ''5. Verify network connectivity\<newline>\<newline>'' @
     ''**Priority**: High\<newline>'' @
     ''**Estimated Time**: 30-60 minutes\<newline>\<newline>'' @
     ''*Note: This is a local analysis. For more detailed AI-powered analysis, please set up Azure OpenAI API key.*''"


definition error_patterns :: "atom list list" where
  "error_patterns =
     [ilit ''ERROR'' @ [(dot, Star)],
      ilit ''Exception'' @ [(dot, Star)],
      ilit ''Failed'' @ [(dot, Star)],
      ilit ''Error'' @ [(dot, Star)],
      ilit ''AuthenticationError'' @ [(dot, Star)],
      ilit ''401'' @ [(dot, Star)],
      ilit ''403'' @ [(dot, Star)],
      ilit ''500'' @ [(dot, Star)],
      ilit ''Build'' @ [(dot, Star)] @ ilit ''failed'' @ [(dot, Star)],
      ilit ''Step'' @ [(dot, Star)] @ ilit ''failed'' @ [(dot, Star)],
      ilit ''MongoDB'' @ [(dot, Star)],
      ilit ''MongoServerSelectionError'' @ [(dot, Star)],
      ilit ''MongoNetworkError'' @ [(dot, Star)],
      ilit ''getaddrinfo ENOTFOUND'' @ [(dot, Star)],
      ilit ''Docker'' @ [(dot, Star)] @ ilit ''Error'' @ [(dot, Star)],
      ilit ''ECR'' @ [(dot, Star)] @ ilit ''Error'' @ [(dot, Star)]]"

definition local_root_cause :: "string \<Rightarrow> string" where
  "local_root_cause content =
     (if str_in ''AuthenticationError'' content \<or> str_in ''401'' content
      then local_authentication_text
      else if str_in ''npm'' (lower content) \<or> str_in ''node'' (lower content)
      then local_node_text
      else if str_in ''docker'' (lower content) \<or> str_in ''ecr'' (lower content)
      then local_docker_text
      else if str_in ''git'' (lower content)
      then local_git_text
      else local_general_text)"

definition local_report :: "string \<Rightarrow> string list \<Rightarrow> string list \<Rightarrow> string list \<Rightarrow> string" where
  "local_report root_cause frepos srepos errors_found =
     local_header @ root_cause
     @ ''**Repositories Involved**:\<newline>''
     @ ''- Failure repos: '' @ join '', '' frepos @ ''\<newline>''
     @ ''- Success repos: '' @ join '', '' srepos @ ''\<newline>\<newline>''
     @ (if errors_found \<noteq> []
        then ''**Error Details**:\<newline>''
             @ concat (map (\<lambda>error. ''- '' @ error @ ''\<newline>'') (take 5 errors_found))
             @ ''\<newline>''
        else [])
     @ local_closing_text"

definition local_result :: "string \<Rightarrow> string \<Rightarrow> string list \<Rightarrow> string list \<Rightarrow> diagnosis" where
  "local_result text kind frepos srepos =
     \<lparr>analysis = text, failure_repos = frepos, success_repos = srepos,
      failure_log_path = None, success_log_path = None, analysis_type = kind,
      build_info = None, repository_context_used = None\<rparr>"

definition local_analysis :: "string \<Rightarrow> string \<Rightarrow> string list \<Rightarrow> string list \<Rightarrow> diagnosis" where
  "local_analysis failure_content success_content frepos srepos =
     (let errors_found = findall_each error_patterns failure_content
      in if str_in ''MongoServerSelectionError'' failure_content
            \<or> str_in ''MongoNetworkError'' failure_content
            \<or> str_in ''getaddrinfo ENOTFOUND'' failure_content
         then (case analyze_mongodb_issue failure_content of
                 MongoDBIssue errors text \<Rightarrow>
                   local_result text ''mongodb_specialized'' frepos srepos
               | NotMongoDBIssue \<Rightarrow>
                   local_result (local_report local_mongodb_text frepos srepos errors_found)
                     ''local'' frepos srepos)
         else local_result
                (local_report (local_root_cause failure_content) frepos srepos errors_found)
                ''local'' frepos srepos)"

text \<open>
  The generative service and the vector stores are outside the program. The service
  receives the values that \<open>analyze_failure\<close> puts into its prompt and answers or raises;
  \<open>llm = None\<close> is an analyzer built without API keys.
\<close>

record prompt =
  prompt_build_file :: string
  prompt_build_number :: string
  prompt_build_time :: string
  prompt_failure_repos :: "string list"
  prompt_success_repos :: "string list"
  prompt_failure_log :: string
  prompt_success_log :: string
  prompt_repository_context :: string

record services =
  llm :: "(prompt \<Rightarrow> error + string) option"
  get_repository_context :: "string list \<Rightarrow> string \<Rightarrow> string"

text \<open>
  What \<open>analyze_failure\<close> announces and calls after the specialized tier: the message
  that the local analysis is used because no service is configured, the message that the
  service is used, the call of the service, and the message that the call failed.
\<close>

datatype event = Using_local_analysis | Using_llm | Llm_invoke | Llm_failed

definition load_success_log :: "filesystem \<Rightarrow> string option \<Rightarrow> error + string" where
  "load_success_log fs spath =
     (case spath of
        None \<Rightarrow> Inr []
      | Some p \<Rightarrow> if p \<noteq> [] \<and> path_exists fs p then read_text fs p else Inr [])"

definition get_or_unknown :: "string option \<Rightarrow> string" where
  "get_or_unknown v = (case v of Some x \<Rightarrow> x | None \<Rightarrow> ''Unknown'')"

definition mongodb_result ::
  "string \<Rightarrow> string \<Rightarrow> string option \<Rightarrow> string \<Rightarrow> string list \<Rightarrow> string list \<Rightarrow> diagnosis" where
  "mongodb_result text fpath spath failure_content frepos srepos =
     (let info = JenkinsAnalyzer_extract_build_info fpath failure_content;
          enhanced_analysis =
            text @ ''\<newline>\<newline>**Build Information**:\<newline>''
            @ ''- Build File: '' @ basename fpath @ ''\<newline>''
            @ ''- Build Number: '' @ get_or_unknown (build_number info) @ ''\<newline>''
            @ ''- Build Time: '' @ get_or_unknown (build_time info) @ ''\<newline>''
            @ ''- Repositories: '' @ join '', '' frepos @ ''\<newline>''
      in \<lparr>analysis = enhanced_analysis, failure_repos = frepos, success_repos = srepos,
          failure_log_path = Some fpath, success_log_path = Some spath,
          analysis_type = ''mongodb_specialized'', build_info = Some info,
          repository_context_used = None\<rparr>)"

definition generative_analysis ::
  "services \<Rightarrow> (prompt \<Rightarrow> error + string) \<Rightarrow> string \<Rightarrow> string option \<Rightarrow> string \<Rightarrow> string
     \<Rightarrow> string list \<Rightarrow> string list \<Rightarrow> event list \<times> (error + diagnosis)" where
  "generative_analysis svc invoke fpath spath failure_content success_content frepos srepos =
     (let info = JenkinsAnalyzer_extract_build_info fpath failure_content;
          repo_context = get_repository_context svc frepos failure_content;
          analysis_prompt =
            \<lparr>prompt_build_file = basename fpath,
             prompt_build_number = get_or_unknown (build_number info),
             prompt_build_time = get_or_unknown (build_time info),
             prompt_failure_repos = frepos,
             prompt_success_repos = srepos,
             prompt_failure_log = take 2000 failure_content,
             prompt_success_log = (if success_content \<noteq> [] then take 1000 success_content
                                   else ''No success log available''),
             prompt_repository_context = repo_context\<rparr>
      in case invoke analysis_prompt of
           Inr response \<Rightarrow>
             ([Using_llm, Llm_invoke],
              Inr \<lparr>analysis = response, failure_repos = frepos, success_repos = srepos,
                   failure_log_path = Some fpath, success_log_path = Some spath,
                   analysis_type = ''azure_openai_with_context'', build_info = Some info,
                   repository_context_used = Some True\<rparr>)
         | Inl e \<Rightarrow>
             ([Using_llm, Llm_invoke, Llm_failed],
              Inr (local_analysis failure_content success_content frepos srepos)))"

definition analyze_failure ::
  "(string list \<Rightarrow> string list) \<Rightarrow> services \<Rightarrow> filesystem \<Rightarrow> string \<Rightarrow> string option
     \<Rightarrow> event list \<times> (error + diagnosis)" where
  "analyze_failure list_of_set svc fs fpath spath =
     (case read_text fs fpath of
        Inl e \<Rightarrow> ([], Inl e)
      | Inr failure_content \<Rightarrow>
          (case load_success_log fs spath of
             Inl e \<Rightarrow> ([], Inl e)
           | Inr success_content \<Rightarrow>
               (let frepos = JenkinsAnalyzer_extract_repos_from_log list_of_set fs fpath;
                    srepos = (case spath of
                                None \<Rightarrow> []
                              | Some p \<Rightarrow>
                                  if p \<noteq> []
                                  then JenkinsAnalyzer_extract_repos_from_log list_of_set fs p
                                  else [])
                in case analyze_mongodb_issue failure_content of
                     MongoDBIssue errors text \<Rightarrow>
                       ([], Inr (mongodb_result text fpath spath failure_content frepos srepos))
                   | NotMongoDBIssue \<Rightarrow>
                       (case llm svc of
                          None \<Rightarrow>
                            ([Using_local_analysis],
                             Inr (local_analysis failure_content success_content frepos srepos))
                        | Some invoke \<Rightarrow>
                            generative_analysis svc invoke fpath spath failure_content
                              success_content frepos srepos))))"

text \<open>
  Logs for the examples: one with the DNS failure of the database, one with no known
  signature.
\<close>

definition dns_failure_files :: filesystem where
  "dns_failure_files =
     [''logs/failure/build_7.txt''
        \<mapsto> Text ''Error: getaddrinfo ENOTFOUND mongodb-central-stg-headless'']"

text \<open>The first log again, beside a comparison log that exists and cannot be read.\<close>

definition unreadable_comparison_files :: filesystem where
  "unreadable_comparison_files =
     [''logs/failure/build_7.txt''
        \<mapsto> Text ''Error: getaddrinfo ENOTFOUND mongodb-central-stg-headless'',
      ''logs/success/build_6.txt'' \<mapsto> Unreadable]"

definition plain_failure_files :: filesystem where
  "plain_failure_files =
     [''logs/failure/build_8.txt'' \<mapsto> Text ''Step 4 exited with code 1'']"

text \<open>An analyzer without a generative service, and one whose service always answers.\<close>

definition no_llm :: services where
  "no_llm = \<lparr>llm = None, get_repository_context = (\<lambda>repos content. [])\<rparr>"

definition answering_llm :: services where
  "answering_llm = \<lparr>llm = Some (\<lambda>p. Inr ''generated''),
                     get_repository_context = (\<lambda>repos content. [])\<rparr>"

section \<open>Properties of the text and pattern functions\<close>

lemma strip_id:
  assumes "s = [] \<or> (\<not> isspace (hd s) \<and> \<not> isspace (last s))"
  shows "strip s = s"
proof (cases "s = []")
  case True
  then show ?thesis by (simp add: strip_def)
next
  case False
  with assms have h: "\<not> isspace (hd s)" and l: "\<not> isspace (last s)" by auto
  have 1: "dropWhile isspace s = s"
    using h by (simp add: dropWhile_eq_self_iff)
  have "\<not> isspace (hd (rev s))"
    using l False by (simp add: hd_rev)
  then have 2: "dropWhile isspace (rev s) = rev s"
    by (simp add: dropWhile_eq_self_iff)
  show ?thesis
    by (simp add: strip_def 1 2)
qed

lemma last_dropWhile_nonempty:
  assumes "dropWhile P xs \<noteq> []"
  shows "last (dropWhile P xs) = last xs"
proof -
  have "xs = takeWhile P xs @ dropWhile P xs" by simp
  then have "last xs = last (takeWhile P xs @ dropWhile P xs)" by simp
  also have "\<dots> = last (dropWhile P xs)" using assms by (rule last_appendR)
  finally show ?thesis by simp
qed

lemma strip_ends:
  assumes "strip s \<noteq> []"
  shows "\<not> isspace (hd (strip s)) \<and> \<not> isspace (last (strip s))"
proof -
  define u where "u = dropWhile isspace s"
  define w where "w = dropWhile isspace (rev u)"
  have s: "strip s = rev w" by (simp add: strip_def u_def w_def)
  with assms have wne: "w \<noteq> []" by simp
  then have une: "u \<noteq> []" by (auto simp: w_def)
  have hw: "\<not> isspace (hd w)"
    using wne unfolding w_def by (rule hd_dropWhile)
  have hu: "\<not> isspace (hd u)"
    using une unfolding u_def by (rule hd_dropWhile)
  have "last w = last (rev u)"
    using wne unfolding w_def by (rule last_dropWhile_nonempty)
  also have "\<dots> = hd u" using une by (simp add: last_rev)
  finally have lw: "\<not> isspace (last w)" using hu by simp
  show ?thesis
    using hw lw wne by (simp add: s hd_rev last_rev)
qed

lemma strip_strip: "strip (strip s) = strip s"
  using strip_ends [of s] by (intro strip_id) blast

lemma strip_nospace:
  assumes "\<forall>c \<in> set s. \<not> isspace c"
  shows "strip s = s"
proof (rule strip_id)
  show "s = [] \<or> (\<not> isspace (hd s) \<and> \<not> isspace (last s))"
    using assms by (cases "s = []") auto
qed

lemma match_here_items:
  "match_here p s = Some ms \<Longrightarrow> list_all2 (\<lambda>a m. \<forall>c \<in> set m. fst a c) p ms"
proof (induction p s arbitrary: ms rule: match_here.induct)
  case (1 s)
  then show ?case by simp
next
  case (2 p r)
  then show ?case by simp
next
  case (3 p r c cs)
  then show ?case by (auto split: if_splits)
next
  case (4 p r)
  then show ?case by simp
next
  case (5 p r c cs)
  then show ?case
    by (auto split: if_splits option.splits list.splits)
next
  case (6 p r)
  then show ?case by auto
next
  case (7 p r c cs)
  then show ?case
    by (auto split: if_splits option.splits list.splits)
qed

lemma items_chars:
  "list_all2 (\<lambda>a m. \<forall>c \<in> set m. fst a c) p ms \<Longrightarrow> c \<in> set (concat ms)
     \<Longrightarrow> \<exists>a \<in> set p. fst a c"
  by (induction rule: list_all2_induct) auto

lemma search_match: "search p s = Some (i, ms) \<Longrightarrow> \<exists>t. match_here p t = Some ms"
  by (induction s arbitrary: i) (auto split: option.splits)

lemma findall_items_match:
  "ms \<in> set (findall_items p s) \<Longrightarrow> \<exists>t. match_here p t = Some ms"
proof (induction p s rule: findall_items.induct)
  case (1 p s)
  show ?case
  proof (cases "search p s")
    case None
    with "1.prems" show ?thesis by (simp add: findall_items.simps)
  next
    case (Some a)
    obtain i ms' where a: "a = (i, ms')" by (cases a)
    show ?thesis
    proof (cases "ms = ms'")
      case True
      with Some a show ?thesis using search_match by blast
    next
      case False
      with "1.prems" Some a have ne: "s \<noteq> []"
        and "ms \<in> set (findall_items p (drop (i + max 1 (length (concat ms'))) s))"
        by (auto simp: findall_items.simps [of p s] split: if_splits)
      with "1.IH" Some a show ?thesis by blast
    qed
  qed
qed

text \<open>The characters of a capture group satisfy one of the group's items.\<close>

lemma group_chars:
  assumes "ms \<in> set (findall_items p s)" and "c \<in> set (match_group i j ms)"
  shows "\<exists>a \<in> set (take (j - i) (drop i p)). fst a c"
proof -
  from assms(1) obtain t where "match_here p t = Some ms"
    using findall_items_match by blast
  then have "list_all2 (\<lambda>a m. \<forall>c \<in> set m. fst a c) p ms"
    by (rule match_here_items)
  then have "list_all2 (\<lambda>a m. \<forall>c \<in> set m. fst a c)
               (take (j - i) (drop i p)) (take (j - i) (drop i ms))"
    by (intro list_all2_takeI list_all2_dropI)
  then show ?thesis
    using assms(2) unfolding match_group_def by (rule items_chars)
qed

lemma findall_chars:
  assumes "x \<in> set (findall p s)" and "c \<in> set x"
  shows "\<exists>a \<in> set p. fst a c"
proof -
  from assms(1) obtain ms where m: "ms \<in> set (findall_items p s)" and x: "x = concat ms"
    by (auto simp: findall_def)
  from m obtain t where "match_here p t = Some ms"
    using findall_items_match by blast
  then have "list_all2 (\<lambda>a m. \<forall>c \<in> set m. fst a c) p ms"
    by (rule match_here_items)
  then show ?thesis
    using assms(2) unfolding x by (rule items_chars)
qed

lemma match_star_total: "match_here [(p, Star)] t \<noteq> None"
  by (induction t) (auto split: option.splits list.splits)

lemma match_ilit_iff:
  "match_here (ilit sig @ r) s \<noteq> None
     \<longleftrightarrow> startswith (lower s) (lower sig) \<and> match_here r (drop (length sig) s) \<noteq> None"
proof (induction sig arbitrary: s)
  case Nil
  show ?case by (simp add: ilit_def lower_def)
next
  case (Cons a as)
  have IH: "\<And>s. match_here (ilit as @ r) s \<noteq> None
     \<longleftrightarrow> startswith (lower s) (lower as) \<and> match_here r (drop (length as) s) \<noteq> None"
    by (rule Cons.IH)
  show ?case
  proof (cases s)
    case Nil
    then show ?thesis by (simp add: ilit_def lower_def)
  next
    case (Cons c cs)
    have "match_here (ilit (a # as) @ r) (c # cs) \<noteq> None
          \<longleftrightarrow> lower_char c = lower_char a \<and> match_here (ilit as @ r) cs \<noteq> None"
      by (simp add: ilit_def)
    also have "\<dots> \<longleftrightarrow> lower_char c = lower_char a
          \<and> startswith (lower cs) (lower as) \<and> match_here r (drop (length as) cs) \<noteq> None"
      using IH [of cs] by blast
    finally show ?thesis
      using Cons by (simp add: lower_def)
  qed
qed

lemma search_ilit_star_iff:
  "search (ilit sig @ [(p, Star)]) s \<noteq> None \<longleftrightarrow> str_in (lower sig) (lower s)"
proof (induction s)
  case Nil
  show ?case
    using match_ilit_iff [of sig "[(p, Star)]" "[]"] match_star_total [of p "[]"]
    by (cases sig) (auto simp: lower_def)
next
  case (Cons c cs)
  have m: "match_here (ilit sig @ [(p, Star)]) (c # cs) \<noteq> None
           \<longleftrightarrow> startswith (lower (c # cs)) (lower sig)"
    using match_ilit_iff [of sig "[(p, Star)]" "c # cs"] match_star_total by blast
  show ?case
  proof (cases "match_here (ilit sig @ [(p, Star)]) (c # cs)")
    case None
    with m have "\<not> startswith (lower (c # cs)) (lower sig)" by simp
    then have "str_in (lower sig) (lower (c # cs)) \<longleftrightarrow> str_in (lower sig) (lower cs)"
      by (simp add: lower_def)
    with None Cons.IH show ?thesis by simp
  next
    case (Some ms)
    with m have "startswith (lower (c # cs)) (lower sig)" by simp
    then have "str_in (lower sig) (lower (c # cs))" by (simp add: lower_def)
    with Some show ?thesis by simp
  qed
qed

lemma findall_nonempty_iff: "findall p s \<noteq> [] \<longleftrightarrow> search p s \<noteq> None"
  by (auto simp: findall_def findall_items.simps [of p s] split: option.splits)

lemma findall_each_empty_iff:
  "findall_each patterns content = [] \<longleftrightarrow> (\<forall>p \<in> set patterns. findall p content = [])"
  by (simp add: findall_each_def)

section \<open>Properties of the Repository Reference Extractor\<close>

lemma set_append_missing: "set (append_missing v xs) = set v \<union> set xs"
  by (induction xs arbitrary: v) auto

lemma distinct_append_missing: "distinct v \<Longrightarrow> distinct (append_missing v xs)"
  by (induction xs arbitrary: v) auto

lemma valid_additional: "\<forall>r \<in> set additional_repos. valid_repo r"
  by (simp add: additional_repos_def valid_repo_def endswith_def)

lemma additional_repos_members:
  "''https://github.com/Meesho/devops-lib.git'' \<in> set additional_repos"
  "''https://github.com/Meesho/ringmaster-backend.git'' \<in> set additional_repos"
  "''https://github.com/Meesho/ringmaster-frontend.git'' \<in> set additional_repos"
  by (simp_all add: additional_repos_def)

lemma extract_repos_from_log_valid:
  assumes "set_order list_of_set"
  shows "distinct (extract_repos_from_log list_of_set fs log_path)
       \<and> (\<forall>repo \<in> set (extract_repos_from_log list_of_set fs log_path).
            startswith repo ''https://github.com/''
            \<and> endswith repo ''.git''
            \<and> 5 \<le> length (split CHR ''/'' repo)
            \<and> \<not> str_in ''api.git'' repo)"
proof (cases "read_text fs log_path")
  case (Inl e)
  then have "extract_repos_from_log list_of_set fs log_path = []"
    by (simp add: extract_repos_from_log_def)
  then show ?thesis by simp
next
  case (Inr content)
  define repos where "repos = list_of_set (first_line_repos content
       @ findall github_pattern content @ findall_group cloning_pattern 19 39 content)"
  have r: "extract_repos_from_log list_of_set fs log_path
             = append_missing (filter valid_repo repos) additional_repos"
    using Inr by (simp add: extract_repos_from_log_def Let_def repos_def)
  have "distinct repos"
    using assms by (simp add: set_order_def repos_def)
  then have d: "distinct (extract_repos_from_log list_of_set fs log_path)"
    unfolding r by (simp add: distinct_append_missing)
  have v: "valid_repo repo" if "repo \<in> set (extract_repos_from_log list_of_set fs log_path)" for repo
    using that valid_additional unfolding r by (auto simp: set_append_missing)
  show ?thesis
  proof (intro conjI ballI)
    show "distinct (extract_repos_from_log list_of_set fs log_path)" by (rule d)
  next
    fix repo assume "repo \<in> set (extract_repos_from_log list_of_set fs log_path)"
    then have "valid_repo repo" by (rule v)
    then show "startswith repo ''https://github.com/''" "endswith repo ''.git''"
      "5 \<le> length (split CHR ''/'' repo)" "\<not> str_in ''api.git'' repo"
      unfolding valid_repo_def by blast+
  qed
qed

lemma remdups_set_order: "set_order remdups"
  by (simp add: set_order_def)

lemma lit_nonspace:
  assumes "\<forall>c \<in> set s. \<not> isspace c" and "a \<in> set (lit s)" and "fst a c"
  shows "\<not> isspace c"
  using assms by (auto simp: lit_def)

lemma url_chars_nonspace:
  "\<forall>c \<in> set ''https://github.com/''. \<not> isspace c"
  "\<forall>c \<in> set ''https://''. \<not> isspace c"
  "\<forall>c \<in> set ''.git''. \<not> isspace c"
  by (simp_all add: isspace_def)

lemma plus_nonspace: "a = (nonspace, Plus) \<Longrightarrow> fst a c \<Longrightarrow> \<not> isspace c"
  by (simp add: nonspace_def)

lemma github_pattern_nonspace:
  assumes "a \<in> set github_pattern" and "fst a c"
  shows "\<not> isspace c"
proof -
  from assms(1) consider "a \<in> set (lit ''https://github.com/'')" | "a = (nonspace, Plus)"
    | "a \<in> set (lit ''.git'')"
    by (auto simp: github_pattern_def)
  then show ?thesis
  proof cases
    case 1
    with url_chars_nonspace(1) show ?thesis using assms(2) by (rule lit_nonspace)
  next
    case 2
    then show ?thesis using assms(2) by (rule plus_nonspace)
  next
    case 3
    with url_chars_nonspace(3) show ?thesis using assms(2) by (rule lit_nonspace)
  qed
qed

lemma repo_pattern_nonspace:
  assumes "a \<in> set repo_pattern" and "fst a c"
  shows "\<not> isspace c"
proof -
  from assms(1) consider "a \<in> set (lit ''https://'')" | "a = (nonspace, Plus)"
    | "a \<in> set (lit ''.git'')"
    by (auto simp: repo_pattern_def)
  then show ?thesis
  proof cases
    case 1
    with url_chars_nonspace(2) show ?thesis using assms(2) by (rule lit_nonspace)
  next
    case 2
    then show ?thesis using assms(2) by (rule plus_nonspace)
  next
    case 3
    with url_chars_nonspace(3) show ?thesis using assms(2) by (rule lit_nonspace)
  qed
qed

lemma cloning_group_items:
  "take (28 - 19) (drop 19 cloning_pattern_any) = lit ''https://'' @ [(nonspace, Plus)]"
proof -
  have "length (lit ''Cloning repository '') = 19" by (simp add: lit_def)
  then have "drop 19 cloning_pattern_any = lit ''https://'' @ [(nonspace, Plus)]"
    by (simp add: cloning_pattern_any_def)
  moreover have "length (lit ''https://'' @ [(nonspace, Plus)]) = 9" by (simp add: lit_def)
  ultimately show ?thesis by simp
qed

lemma cloning_group_nonspace:
  assumes "a \<in> set (take (28 - 19) (drop 19 cloning_pattern_any))" and "fst a c"
  shows "\<not> isspace c"
proof -
  from assms(1) consider "a \<in> set (lit ''https://'')" | "a = (nonspace, Plus)"
    unfolding cloning_group_items by auto
  then show ?thesis
  proof cases
    case 1
    with url_chars_nonspace(2) show ?thesis using assms(2) by (rule lit_nonspace)
  next
    case 2
    then show ?thesis using assms(2) by (rule plus_nonspace)
  qed
qed

lemma first_line_tokens_stripped: "t \<in> set (first_line_tokens content) \<Longrightarrow> strip t = t"
  by (auto simp: first_line_tokens_def strip_strip split: list.splits if_splits)

lemma collected_repos_stripped:
  assumes "t \<in> set (first_line_tokens content @ findall github_pattern content
             @ findall repo_pattern content @ findall_group cloning_pattern_any 19 28 content)"
  shows "strip t = t"
proof -
  consider "t \<in> set (first_line_tokens content)" | "t \<in> set (findall github_pattern content)"
    | "t \<in> set (findall repo_pattern content)"
    | "t \<in> set (findall_group cloning_pattern_any 19 28 content)"
    using assms by auto
  then show ?thesis
  proof cases
    case 1
    then show ?thesis by (rule first_line_tokens_stripped)
  next
    case 2
    then have "\<forall>c \<in> set t. \<not> isspace c"
      using findall_chars github_pattern_nonspace by blast
    then show ?thesis by (rule strip_nospace)
  next
    case 3
    then have "\<forall>c \<in> set t. \<not> isspace c"
      using findall_chars repo_pattern_nonspace by blast
    then show ?thesis by (rule strip_nospace)
  next
    case 4
    then obtain ms where "ms \<in> set (findall_items cloning_pattern_any content)"
      and "t = match_group 19 28 ms"
      by (auto simp: findall_group_def)
    then have "\<forall>c \<in> set t. \<not> isspace c"
      using group_chars cloning_group_nonspace by blast
    then show ?thesis by (rule strip_nospace)
  qed
qed

lemma JenkinsAnalyzer_extract_repos_distinct:
  assumes "set_order list_of_set"
  shows "distinct (JenkinsAnalyzer_extract_repos_from_log list_of_set fs log_path)"
proof (cases "read_text fs log_path")
  case (Inl e)
  then show ?thesis by (simp add: JenkinsAnalyzer_extract_repos_from_log_def)
next
  case (Inr content)
  define repos where "repos = first_line_tokens content @ findall github_pattern content
             @ findall repo_pattern content @ findall_group cloning_pattern_any 19 28 content"
  have r: "JenkinsAnalyzer_extract_repos_from_log list_of_set fs log_path
             = filter (\<lambda>t. t \<noteq> []) (map strip (list_of_set repos))"
    using Inr by (simp add: JenkinsAnalyzer_extract_repos_from_log_def Let_def repos_def)
  have "set (list_of_set repos) = set repos" and d: "distinct (list_of_set repos)"
    using assms by (simp_all add: set_order_def)
  then have "\<forall>t \<in> set (list_of_set repos). strip t = t"
    using collected_repos_stripped unfolding repos_def by blast
  then have "map strip (list_of_set repos) = list_of_set repos"
    by (simp add: map_idI)
  then show ?thesis
    unfolding r using d by simp
qed

lemma supplemental_in_plain_log:
  "''https://github.com/Meesho/devops-lib.git''
     \<in> set (extract_repos_from_log remdups plain_failure_files ''logs/failure/build_8.txt'')"
  by code_simp

text \<open>
  Claim C4, as amended. \<open>extract_repos_from_log\<close> of \<open>jenkins_fetch_and_vectorize.py\<close>
  returns a list without duplicates in which every reference starts with
  \<open>https://github.com/\<close>, ends with \<open>.git\<close>, has at least five segments between
  slashes and does not contain \<open>api.git\<close>. \<open>JenkinsAnalyzer._extract_repos_from_log\<close>
  of \<open>rag_pipeline.py\<close> returns a list without duplicates and validates nothing. Both
  hold for every order in which Python enumerates the set of candidates.
\<close>

theorem extractors_valid_and_distinct:
  assumes "set_order list_of_set"
  shows "distinct (extract_repos_from_log list_of_set fs log_path)
       \<and> (\<forall>repo \<in> set (extract_repos_from_log list_of_set fs log_path).
            startswith repo ''https://github.com/''
            \<and> endswith repo ''.git''
            \<and> 5 \<le> length (split CHR ''/'' repo)
            \<and> \<not> str_in ''api.git'' repo)
       \<and> distinct (JenkinsAnalyzer_extract_repos_from_log list_of_set fs log_path)"
  using extract_repos_from_log_valid [OF assms, of fs log_path]
    JenkinsAnalyzer_extract_repos_distinct [OF assms, of fs log_path]
  by blast

theorem extractors_valid_and_distinct_witness:
  "set_order remdups
   \<and> distinct (extract_repos_from_log remdups plain_failure_files ''logs/failure/build_8.txt'')
   \<and> startswith ''https://github.com/Meesho/devops-lib.git'' ''https://github.com/''
   \<and> endswith ''https://github.com/Meesho/devops-lib.git'' ''.git''
   \<and> 5 \<le> length (split CHR ''/'' ''https://github.com/Meesho/devops-lib.git'')
   \<and> \<not> str_in ''api.git'' ''https://github.com/Meesho/devops-lib.git''
   \<and> distinct (JenkinsAnalyzer_extract_repos_from_log remdups plain_failure_files
                 ''logs/failure/build_8.txt'')"
  using remdups_set_order supplemental_in_plain_log
    extractors_valid_and_distinct [OF remdups_set_order, of plain_failure_files
      "''logs/failure/build_8.txt''"]
  by blast

text \<open>
  Claim C4, as stated, fails for the extractor of the analyzer: a log that mentions
  \<open>https://gitlab.com/a/b.git\<close> makes \<open>JenkinsAnalyzer._extract_repos_from_log\<close> return
  that reference, which is not on the known host.
\<close>

theorem analyzer_extractor_returns_other_host:
  "JenkinsAnalyzer_extract_repos_from_log remdups gitlab_files ''logs/failure/build_9.txt''
     = [''https://gitlab.com/a/b.git'']
   \<and> \<not> startswith ''https://gitlab.com/a/b.git'' ''https://github.com/''"
  by code_simp

text \<open>
  Claim C5. When the log cannot be read, both extractors return the empty list: the
  read error is caught inside them and never leaves them.
\<close>

theorem extractors_empty_on_read_error:
  assumes "read_text fs log_path = Inl e"
  shows "extract_repos_from_log list_of_set fs log_path = []
       \<and> JenkinsAnalyzer_extract_repos_from_log list_of_set fs log_path = []"
  using assms
  by (simp add: extract_repos_from_log_def JenkinsAnalyzer_extract_repos_from_log_def)

theorem extractors_empty_on_read_error_witness:
  "read_text Map.empty ''missing.log'' = Inl (FileNotFoundError ''missing.log'')
   \<and> (extract_repos_from_log remdups Map.empty ''missing.log'' = []
      \<and> JenkinsAnalyzer_extract_repos_from_log remdups Map.empty ''missing.log'' = [])"
proof -
  have h: "read_text Map.empty ''missing.log'' = Inl (FileNotFoundError ''missing.log'')"
    by (simp add: read_text_def)
  show ?thesis
    using h extractors_empty_on_read_error [OF h, of remdups] by (rule conjI)
qed

text \<open>
  Claim C10. For every log that can be read, the list returned by
  \<open>extract_repos_from_log\<close> of \<open>jenkins_fetch_and_vectorize.py\<close> contains the three
  supplemental references and is therefore never empty, whatever the log mentions.
\<close>

theorem extract_repos_adds_supplemental:
  assumes "read_text fs log_path = Inr content"
  shows "''https://github.com/Meesho/devops-lib.git''
           \<in> set (extract_repos_from_log list_of_set fs log_path)
       \<and> ''https://github.com/Meesho/ringmaster-backend.git''
           \<in> set (extract_repos_from_log list_of_set fs log_path)
       \<and> ''https://github.com/Meesho/ringmaster-frontend.git''
           \<in> set (extract_repos_from_log list_of_set fs log_path)
       \<and> extract_repos_from_log list_of_set fs log_path \<noteq> []"
proof -
  obtain v where r: "extract_repos_from_log list_of_set fs log_path
                       = append_missing v additional_repos"
    using assms by (simp add: extract_repos_from_log_def Let_def)
  have sub: "x \<in> set (extract_repos_from_log list_of_set fs log_path)"
    if "x \<in> set additional_repos" for x
    using that unfolding r by (simp add: set_append_missing)
  have ne: "extract_repos_from_log list_of_set fs log_path \<noteq> []"
    using sub [OF additional_repos_members(1)] by auto
  show ?thesis
    using sub [OF additional_repos_members(1)] sub [OF additional_repos_members(2)]
      sub [OF additional_repos_members(3)] ne
    by blast
qed

theorem extract_repos_adds_supplemental_witness:
  "read_text plain_failure_files ''logs/failure/build_8.txt'' = Inr ''Step 4 exited with code 1''
   \<and> (''https://github.com/Meesho/devops-lib.git''
           \<in> set (extract_repos_from_log remdups plain_failure_files
                     ''logs/failure/build_8.txt'')
       \<and> ''https://github.com/Meesho/ringmaster-backend.git''
           \<in> set (extract_repos_from_log remdups plain_failure_files
                     ''logs/failure/build_8.txt'')
       \<and> ''https://github.com/Meesho/ringmaster-frontend.git''
           \<in> set (extract_repos_from_log remdups plain_failure_files
                     ''logs/failure/build_8.txt'')
       \<and> extract_repos_from_log remdups plain_failure_files
            ''logs/failure/build_8.txt'' \<noteq> [])"
proof -
  have h: "read_text plain_failure_files ''logs/failure/build_8.txt''
             = Inr ''Step 4 exited with code 1''"
    by (simp add: read_text_def plain_failure_files_def)
  show ?thesis
    using h extract_repos_adds_supplemental [OF h, of remdups] by (rule conjI)
qed

section \<open>Properties of the Repository Materializer\<close>

lemma path_exists_present: "fs path = Some n \<Longrightarrow> path_exists fs path"
  by (simp add: path_exists_def)

lemma path_exists_after_mkdir:
  "path_exists fs p \<Longrightarrow> path_exists (fs(target \<mapsto> Dir)) p"
  by (auto simp: path_exists_def split: option.splits)

lemma run_git_success_exists:
  "subprocess_run_git_clone git w url target = (Returned 0 left, w')
     \<Longrightarrow> path_exists (files w') target"
  by (auto simp: subprocess_run_git_clone_def Let_def leaves_target_def
           intro: path_exists_present)

lemma run_git_keeps:
  "subprocess_run_git_clone git w url target = (r, w') \<Longrightarrow> path_exists (files w) p
     \<Longrightarrow> path_exists (files w') p"
  by (auto simp: subprocess_run_git_clone_def Let_def intro: path_exists_after_mkdir)

lemma clone_repository_success_exists:
  assumes "clone_repository git w repo_url target_dir = (True, w')"
  shows "path_exists (files w') target_dir"
proof (cases "path_exists (files w) target_dir")
  case True
  with assms show ?thesis by (simp add: clone_repository_def)
next
  case False
  obtain r w1 where run: "subprocess_run_git_clone git w repo_url target_dir = (r, w1)"
    by (cases "subprocess_run_git_clone git w repo_url target_dir")
  with assms False
  have "r = Returned 0 (case r of Returned rc left \<Rightarrow> left | _ \<Rightarrow> False) \<and> w' = w1"
    by (cases r) (auto simp: clone_repository_def split: if_splits)
  with run show ?thesis using run_git_success_exists by metis
qed

lemma clone_repository_fetches:
  "clone_repository git w repo_url target_dir = (ok, w')
     \<Longrightarrow> length (fetches w') \<le> Suc (length (fetches w))"
  by (auto simp: clone_repository_def subprocess_run_git_clone_def Let_def
           split: if_splits git_result.splits)

lemma clone_repo_success_exists:
  assumes "clone_repo git w url = (Inr path, w')"
  shows "path_exists (files w') REPO_DIR
       \<and> path = os_path_join REPO_DIR (replace ''.git'' [] (last (split CHR ''/'' url)))
       \<and> path_exists (files w') path"
proof -
  define w1 where "w1 = (if \<not> path_exists (files w) REPO_DIR
                then w\<lparr>files := (files w)(REPO_DIR \<mapsto> Dir)\<rparr> else w)"
  define repo_path where
    "repo_path = os_path_join REPO_DIR (replace ''.git'' [] (last (split CHR ''/'' url)))"
  have e1: "path_exists (files w1) REPO_DIR"
    by (simp add: w1_def path_exists_present)
  have c: "clone_repo git w url =
        (if \<not> path_exists (files w1) repo_path
         then (case subprocess_run_git_clone git w1 url repo_path of
                 (Returned returncode left, w2) \<Rightarrow>
                   (if returncode = 0 then (Inr repo_path, w2)
                    else (Inl (CalledProcessError url), w2))
               | (TimeoutExpired left, w2) \<Rightarrow> (Inl (CalledProcessError url), w2)
               | (GitOSError, w2) \<Rightarrow> (Inl (CalledProcessError url), w2))
         else (Inr repo_path, w1))"
    by (simp only: clone_repo_def Let_def w1_def repo_path_def)
  show ?thesis
  proof (cases "path_exists (files w1) repo_path")
    case True
    with assms c e1 show ?thesis by (simp add: repo_path_def)
  next
    case False
    obtain r w2 where run: "subprocess_run_git_clone git w1 url repo_path = (r, w2)"
      by (cases "subprocess_run_git_clone git w1 url repo_path")
    with assms c False obtain left where r: "r = Returned 0 left" and w: "w' = w2"
      and p: "path = repo_path"
      by (cases r) (auto split: if_splits)
    from run r have "path_exists (files w2) repo_path"
      using run_git_success_exists by simp
    moreover from run e1 have "path_exists (files w2) REPO_DIR"
      by (rule run_git_keeps)
    ultimately show ?thesis
      using w p by (simp add: repo_path_def)
  qed
qed

lemma devops_lib_path:
  "os_path_join ''cloned_repos'' (replace ''.git'' [] ''devops-lib.git'')
   = ''cloned_repos/devops-lib''"
  by code_simp

text \<open>
  Claim C6, as amended. If a call of \<open>clone_repository\<close> reports success, a second call
  with the same URL and target reports success too and changes nothing: it runs no
  fetch, so that the two calls together run git at most once. The same holds for
  \<open>clone_repo\<close>, whose success is the path it returns. This holds for every behaviour
  of git.
\<close>

theorem clone_twice_after_success:
  "(clone_repository git w repo_url target_dir = (True, w1)
      \<longrightarrow> clone_repository git w1 repo_url target_dir = (True, w1)
          \<and> length (fetches w1) \<le> Suc (length (fetches w)))
   \<and> (clone_repo git w url = (Inr path, w2)
      \<longrightarrow> clone_repo git w2 url = (Inr path, w2))"
proof (intro conjI impI)
  assume a: "clone_repository git w repo_url target_dir = (True, w1)"
  then have "path_exists (files w1) target_dir"
    by (rule clone_repository_success_exists)
  then show "clone_repository git w1 repo_url target_dir = (True, w1)"
    by (simp add: clone_repository_def)
  from a show "length (fetches w1) \<le> Suc (length (fetches w))"
    by (rule clone_repository_fetches)
next
  assume "clone_repo git w url = (Inr path, w2)"
  then have f: "path_exists (files w2) REPO_DIR
       \<and> path = os_path_join REPO_DIR (replace ''.git'' [] (last (split CHR ''/'' url)))
       \<and> path_exists (files w2) path"
    by (rule clone_repo_success_exists)
  from f have e1: "path_exists (files w2) REPO_DIR" by blast
  from f have p: "path = os_path_join REPO_DIR (replace ''.git'' [] (last (split CHR ''/'' url)))"
    by blast
  from f have "path_exists (files w2) path" by blast
  then have e2: "path_exists (files w2)
      (os_path_join REPO_DIR (replace ''.git'' [] (last (split CHR ''/'' url))))"
    using p by simp
  have "clone_repo git w2 url
      = (Inr (os_path_join REPO_DIR (replace ''.git'' [] (last (split CHR ''/'' url)))), w2)"
    using e1 e2 by (simp add: clone_repo_def Let_def)
  then show "clone_repo git w2 url = (Inr path, w2)"
    using p by simp
qed

theorem clone_twice_after_success_witness:
  "clone_repository git_reachable
     (snd (clone_repository git_reachable empty_world
             ''https://github.com/Meesho/devops-lib.git'' ''cloned_repos/devops-lib''))
     ''https://github.com/Meesho/devops-lib.git'' ''cloned_repos/devops-lib''
   = (True, snd (clone_repository git_reachable empty_world
                   ''https://github.com/Meesho/devops-lib.git'' ''cloned_repos/devops-lib''))
   \<and> clone_repo git_reachable
       (snd (clone_repo git_reachable empty_world ''https://github.com/Meesho/devops-lib.git''))
       ''https://github.com/Meesho/devops-lib.git''
     = (Inr ''cloned_repos/devops-lib'',
        snd (clone_repo git_reachable empty_world ''https://github.com/Meesho/devops-lib.git''))"
proof -
  have h1: "clone_repository git_reachable empty_world
       ''https://github.com/Meesho/devops-lib.git'' ''cloned_repos/devops-lib''
     = (True, snd (clone_repository git_reachable empty_world
       ''https://github.com/Meesho/devops-lib.git'' ''cloned_repos/devops-lib''))"
    by (simp add: clone_repository_def subprocess_run_git_clone_def git_reachable_def
          empty_world_def path_exists_def leaves_target_def)
  have h2: "clone_repo git_reachable empty_world ''https://github.com/Meesho/devops-lib.git''
     = (Inr ''cloned_repos/devops-lib'',
        snd (clone_repo git_reachable empty_world ''https://github.com/Meesho/devops-lib.git''))"
    by (simp add: clone_repo_def Let_def devops_lib_path subprocess_run_git_clone_def
          git_reachable_def empty_world_def path_exists_def leaves_target_def REPO_DIR_def)
  show ?thesis
    using h1 h2
      clone_twice_after_success [of git_reachable empty_world
        "''https://github.com/Meesho/devops-lib.git''" "''cloned_repos/devops-lib''"
        "snd (clone_repository git_reachable empty_world
               ''https://github.com/Meesho/devops-lib.git'' ''cloned_repos/devops-lib'')"
        "''https://github.com/Meesho/devops-lib.git''" "''cloned_repos/devops-lib''"
        "snd (clone_repo git_reachable empty_world ''https://github.com/Meesho/devops-lib.git'')"]
    by blast
qed

text \<open>
  Claim C6, as stated, fails when the first call fails and leaves nothing in the slot:
  the second call finds no slot and runs git again, so that two calls run two fetches.
\<close>

theorem clone_twice_two_fetches:
  "fetches (snd (clone_repository git_unreachable
             (snd (clone_repository git_unreachable empty_world
                     ''https://github.com/Meesho/devops-lib.git'' ''cloned_repos/devops-lib''))
             ''https://github.com/Meesho/devops-lib.git'' ''cloned_repos/devops-lib''))
   = [(''https://github.com/Meesho/devops-lib.git'', ''cloned_repos/devops-lib''),
      (''https://github.com/Meesho/devops-lib.git'', ''cloned_repos/devops-lib'')]"
  by (simp add: clone_repository_def subprocess_run_git_clone_def git_unreachable_def
        empty_world_def path_exists_def leaves_target_def)

section \<open>Properties of the Semantic Index Store\<close>

lemma one_file_documents:
  "collect_documents one_file_env ''cloned_repos/app'' None
     = [\<lparr>page_content = ''print(1)'', metadata = [(''source'', ''cloned_repos/app/main.py'')]\<rparr>]"
  by (simp add: collect_documents_def chunks_of_file_def one_file_env_def index_extensions_def)

text \<open>
  Claim C7, as amended. \<open>chunk_and_store_to_vector_db\<close> does not look for an existing
  index: whenever the directory yields at least one chunk and the store can be saved,
  the index at the given path is replaced by the new chunks, whatever was stored there
  before, and every other index is left as it was.
\<close>

theorem chunk_and_store_overwrites:
  assumes "collect_documents env directory_path meta \<noteq> []"
    and "faiss_saves env (collect_documents env directory_path meta) vectorstore_path"
  shows "chunk_and_store_to_vector_db env stores directory_path vectorstore_path meta
           = stores(vectorstore_path \<mapsto> collect_documents env directory_path meta)"
  using assms by (simp add: chunk_and_store_to_vector_db_def Let_def)

theorem chunk_and_store_overwrites_witness:
  "collect_documents one_file_env ''cloned_repos/app'' None \<noteq> []
   \<and> faiss_saves one_file_env (collect_documents one_file_env ''cloned_repos/app'' None)
        ''vectorstore/app_vectorstore''
   \<and> chunk_and_store_to_vector_db one_file_env [''vectorstore/app_vectorstore'' \<mapsto> old_index]
        ''cloned_repos/app'' ''vectorstore/app_vectorstore'' None ''vectorstore/app_vectorstore''
      = Some [\<lparr>page_content = ''print(1)'',
               metadata = [(''source'', ''cloned_repos/app/main.py'')]\<rparr>]"
proof -
  have h1: "collect_documents one_file_env ''cloned_repos/app'' None \<noteq> []"
    by (simp add: one_file_documents)
  have h2: "faiss_saves one_file_env (collect_documents one_file_env ''cloned_repos/app'' None)
        ''vectorstore/app_vectorstore''"
    by (simp add: one_file_env_def)
  show ?thesis
    using h1 h2
      chunk_and_store_overwrites [OF h1 h2, of "[''vectorstore/app_vectorstore'' \<mapsto> old_index]"]
    by (simp add: one_file_documents)
qed

text \<open>
  Claim C7, as stated, fails: a build request for a path that already holds an index is
  not a no-op. The index \<open>old_index\<close> stored at the path is gone after the call.
\<close>

theorem chunk_and_store_replaces_existing_index:
  "chunk_and_store_to_vector_db one_file_env [''vectorstore/app_vectorstore'' \<mapsto> old_index]
     ''cloned_repos/app'' ''vectorstore/app_vectorstore'' None ''vectorstore/app_vectorstore''
   \<noteq> Some old_index"
  by (simp add: chunk_and_store_to_vector_db_def Let_def one_file_documents old_index_def)
     (simp add: one_file_env_def)

section \<open>Properties of the Build Metadata Extractor\<close>

lemma notes_no_build_number: "search build_number_pattern (basename ''notes.txt'') = None"
  by code_simp

lemma notes_no_timestamp: "search timestamp_pattern (basename ''notes.txt'') = None"
  by code_simp

lemma plain_no_started_by: "search started_by_pattern ''Step 4 exited with code 1'' = None"
  by code_simp

lemma plain_no_status: "search status_pattern ''Step 4 exited with code 1'' = None"
  by code_simp

lemma month_13_timestamp:
  "search_group timestamp_pattern 0 15 (basename ''logs/failure/build_42_20231301_000000.txt'')
   = Some ''20231301_000000''"
  by code_simp

lemma month_13_rejected: "strptime ''20231301_000000'' = Inl ValueError"
  by code_simp

text \<open>
  Claim C9. \<open>JenkinsAnalyzer._extract_build_info\<close> is a total function of the file
  name and the log text: it returns a dictionary for every input. A field whose pattern
  does not match is absent from the result, and a timestamp that matches the pattern of
  the file name but is rejected by \<open>strptime\<close> gives the build time \<open>Unknown\<close>.
\<close>

theorem build_info_total:
  "(search build_number_pattern (basename log_path) = None
      \<longrightarrow> build_number (JenkinsAnalyzer_extract_build_info log_path log_content) = None)
   \<and> (search timestamp_pattern (basename log_path) = None
      \<longrightarrow> build_time (JenkinsAnalyzer_extract_build_info log_path log_content) = None)
   \<and> (search started_by_pattern log_content = None
      \<longrightarrow> started_by (JenkinsAnalyzer_extract_build_info log_path log_content) = None)
   \<and> (search status_pattern log_content = None
      \<longrightarrow> status (JenkinsAnalyzer_extract_build_info log_path log_content) = None)
   \<and> (search_group timestamp_pattern 0 15 (basename log_path) = Some timestamp
        \<and> strptime timestamp = Inl e
      \<longrightarrow> build_time (JenkinsAnalyzer_extract_build_info log_path log_content)
            = Some ''Unknown'')"
proof -
  have unknown: "build_time (JenkinsAnalyzer_extract_build_info log_path log_content)
            = Some ''Unknown''"
    if "search_group timestamp_pattern 0 15 (basename log_path) = Some timestamp"
      and "strptime timestamp = Inl e"
    using that by (simp add: JenkinsAnalyzer_extract_build_info_def Let_def)
  show ?thesis
    using unknown
    by (simp add: JenkinsAnalyzer_extract_build_info_def Let_def search_group_def)
qed

theorem build_info_total_witness:
  "build_number (JenkinsAnalyzer_extract_build_info ''notes.txt'' ''Step 4 exited with code 1'')
     = None
   \<and> build_time (JenkinsAnalyzer_extract_build_info ''notes.txt'' ''Step 4 exited with code 1'')
     = None
   \<and> started_by (JenkinsAnalyzer_extract_build_info ''notes.txt'' ''Step 4 exited with code 1'')
     = None
   \<and> status (JenkinsAnalyzer_extract_build_info ''notes.txt'' ''Step 4 exited with code 1'')
     = None
   \<and> build_time (JenkinsAnalyzer_extract_build_info
        ''logs/failure/build_42_20231301_000000.txt'' ''Step 4 exited with code 1'')
     = Some ''Unknown''"
  using notes_no_build_number notes_no_timestamp plain_no_started_by plain_no_status
    month_13_timestamp month_13_rejected
    build_info_total [of "''notes.txt''" "''Step 4 exited with code 1''"
      "''20231301_000000''" ValueError]
    build_info_total [of "''logs/failure/build_42_20231301_000000.txt''"
      "''Step 4 exited with code 1''" "''20231301_000000''" ValueError]
  by blast

section \<open>Properties of the Diagnosis Pipeline\<close>

lemma mongodb_issue_iff:
  "analyze_mongodb_issue content = NotMongoDBIssue
     \<longleftrightarrow> (\<forall>sig \<in> set mongodb_signatures. \<not> str_in (lower sig) (lower content))"
proof -
  have "analyze_mongodb_issue content = NotMongoDBIssue
        \<longleftrightarrow> findall_each mongodb_error_patterns content = []"
    by (simp add: analyze_mongodb_issue_def Let_def)
  also have "\<dots> \<longleftrightarrow> (\<forall>sig \<in> set mongodb_signatures.
                        findall (ilit sig @ [(dot, Star)]) content = [])"
    by (simp add: findall_each_empty_iff mongodb_error_patterns_def)
  also have "\<dots> \<longleftrightarrow> (\<forall>sig \<in> set mongodb_signatures. \<not> str_in (lower sig) (lower content))"
    using findall_nonempty_iff search_ilit_star_iff by blast
  finally show ?thesis .
qed

lemma dns_signature: "''getaddrinfo ENOTFOUND'' \<in> set mongodb_signatures"
  by (simp add: mongodb_signatures_def)

lemma analyze_failure_specialized:
  assumes "read_text fs fpath = Inr content"
    and "load_success_log fs spath = Inr success_content"
    and "sig \<in> set mongodb_signatures"
    and "str_in (lower sig) (lower content)"
  shows "\<exists>r. analyze_failure list_of_set svc fs fpath spath = ([], Inr r)
             \<and> analysis_type r = ''mongodb_specialized''"
proof -
  from assms(3,4) have "analyze_mongodb_issue content \<noteq> NotMongoDBIssue"
    using mongodb_issue_iff by blast
  then obtain errors report where m: "analyze_mongodb_issue content = MongoDBIssue errors report"
    by (cases "analyze_mongodb_issue content") auto
  show ?thesis
    using assms(1,2) m
    by (simp add: analyze_failure_def Let_def mongodb_result_def)
qed

lemma local_header_nonempty: "local_header \<noteq> []"
  by (simp add: local_header_def)

lemma local_analysis_heuristic:
  assumes "analyze_mongodb_issue content = NotMongoDBIssue"
  shows "analysis_type (local_analysis content success_content frepos srepos) = ''local''
       \<and> analysis (local_analysis content success_content frepos srepos) \<noteq> []"
  using assms local_header_nonempty
  by (simp add: local_analysis_def Let_def local_result_def local_report_def)

lemma dns_log_readable:
  "read_text dns_failure_files ''logs/failure/build_7.txt''
     = Inr ''Error: getaddrinfo ENOTFOUND mongodb-central-stg-headless''"
  by (simp add: read_text_def dns_failure_files_def)

lemma dns_log_has_signature:
  "str_in (lower ''getaddrinfo ENOTFOUND'')
     (lower ''Error: getaddrinfo ENOTFOUND mongodb-central-stg-headless'')"
  by code_simp

lemma no_success_log: "load_success_log fs None = Inr []"
  by (simp add: load_success_log_def)

text \<open>
  When the failure log holds the DNS failure signature of the database,
  \<open>getaddrinfo ENOTFOUND\<close> in any letter case, and both logs can be loaded,
  \<open>analyze_failure\<close> returns a result of kind \<open>mongodb_specialized\<close>, whatever generative
  service is configured. The trace is empty: the service is not called and the local
  analysis is not announced.
\<close>

lemma specialized_tier_when_logs_load:
  assumes "read_text fs fpath = Inr content"
    and "load_success_log fs spath = Inr success_content"
    and "str_in (lower ''getaddrinfo ENOTFOUND'') (lower content)"
  shows "\<exists>r. analyze_failure list_of_set svc fs fpath spath = ([], Inr r)
             \<and> analysis_type r = ''mongodb_specialized''"
  using assms(1,2) dns_signature assms(3) by (rule analyze_failure_specialized)

lemma specialized_tier_example:
  "\<exists>r. analyze_failure remdups answering_llm dns_failure_files
          ''logs/failure/build_7.txt'' None = ([], Inr r)
       \<and> analysis_type r = ''mongodb_specialized''"
  using dns_log_readable no_success_log [of dns_failure_files] dns_log_has_signature
  by (rule specialized_tier_when_logs_load)

lemma unreadable_comparison_failure_log:
  "read_text unreadable_comparison_files ''logs/failure/build_7.txt''
     = Inr ''Error: getaddrinfo ENOTFOUND mongodb-central-stg-headless''"
  by (simp add: read_text_def unreadable_comparison_files_def)

lemma unreadable_comparison_success_log:
  "load_success_log unreadable_comparison_files (Some ''logs/success/build_6.txt'')
     = Inl (ReadError ''logs/success/build_6.txt'')"
  by (simp add: load_success_log_def path_exists_def read_text_def
        unreadable_comparison_files_def)

text \<open>
  Claim C1. The claim does not hold for every log with the DNS failure signature:
  \<open>analyze_failure\<close> reads the comparison log, when it is given and exists, before any
  tier runs and outside any handler. When that read raises, the error leaves
  \<open>analyze_failure\<close> and no result is returned, whatever the failure log holds and
  whatever service is configured. The witness is the log with the signature beside a
  comparison log that cannot be read.
\<close>

theorem analyze_failure_raises_on_unreadable_comparison_log:
  assumes "read_text fs fpath = Inr content"
    and "load_success_log fs spath = Inl e"
  shows "analyze_failure list_of_set svc fs fpath spath = ([], Inl e)"
  using assms by (simp add: analyze_failure_def)

theorem analyze_failure_raises_on_unreadable_comparison_log_witness:
  "read_text unreadable_comparison_files ''logs/failure/build_7.txt''
     = Inr ''Error: getaddrinfo ENOTFOUND mongodb-central-stg-headless''
   \<and> str_in (lower ''getaddrinfo ENOTFOUND'')
        (lower ''Error: getaddrinfo ENOTFOUND mongodb-central-stg-headless'')
   \<and> load_success_log unreadable_comparison_files (Some ''logs/success/build_6.txt'')
     = Inl (ReadError ''logs/success/build_6.txt'')
   \<and> analyze_failure remdups answering_llm unreadable_comparison_files
        ''logs/failure/build_7.txt'' (Some ''logs/success/build_6.txt'')
     = ([], Inl (ReadError ''logs/success/build_6.txt''))"
  using unreadable_comparison_failure_log dns_log_has_signature
    unreadable_comparison_success_log
    analyze_failure_raises_on_unreadable_comparison_log
      [OF unreadable_comparison_failure_log unreadable_comparison_success_log,
       of remdups answering_llm]
  by blast

text \<open>
  Claim C2, as amended. When no generative service is configured, the logs can be loaded
  and none of the signatures of the specialized tier occurs in the failure log, in any
  letter case, \<open>analyze_failure\<close> returns a result of kind \<open>local\<close> with a non-empty
  analysis text, for every text of the failure log, the empty one included.
\<close>

theorem heuristic_tier_total:
  assumes "read_text fs fpath = Inr content"
    and "load_success_log fs spath = Inr success_content"
    and "llm svc = None"
    and "\<forall>sig \<in> set mongodb_signatures. \<not> str_in (lower sig) (lower content)"
  shows "\<exists>r. analyze_failure list_of_set svc fs fpath spath = ([Using_local_analysis], Inr r)
             \<and> analysis_type r = ''local'' \<and> analysis r \<noteq> []"
proof -
  from assms(4) have m: "analyze_mongodb_issue content = NotMongoDBIssue"
    using mongodb_issue_iff by blast
  then have "analysis_type (local_analysis content success_content
                 (JenkinsAnalyzer_extract_repos_from_log list_of_set fs fpath)
                 (case spath of None \<Rightarrow> []
                  | Some p \<Rightarrow> if p \<noteq> []
                      then JenkinsAnalyzer_extract_repos_from_log list_of_set fs p else [])) = ''local''
       \<and> analysis (local_analysis content success_content
                 (JenkinsAnalyzer_extract_repos_from_log list_of_set fs fpath)
                 (case spath of None \<Rightarrow> []
                  | Some p \<Rightarrow> if p \<noteq> []
                      then JenkinsAnalyzer_extract_repos_from_log list_of_set fs p else [])) \<noteq> []"
    by (rule local_analysis_heuristic)
  then show ?thesis
    using assms(1,2,3) m by (simp add: analyze_failure_def Let_def)
qed

theorem heuristic_tier_total_witness:
  "read_text plain_failure_files ''logs/failure/build_8.txt'' = Inr ''Step 4 exited with code 1''
   \<and> load_success_log plain_failure_files None = Inr []
   \<and> llm no_llm = None
   \<and> (\<exists>r. analyze_failure remdups no_llm plain_failure_files
              ''logs/failure/build_8.txt'' None = ([Using_local_analysis], Inr r)
           \<and> analysis_type r = ''local'' \<and> analysis r \<noteq> [])"
proof -
  have h1: "read_text plain_failure_files ''logs/failure/build_8.txt''
              = Inr ''Step 4 exited with code 1''"
    by (simp add: read_text_def plain_failure_files_def)
  have h3: "llm no_llm = None"
    by (simp add: no_llm_def)
  have h4: "\<forall>sig \<in> set mongodb_signatures.
         \<not> str_in (lower sig) (lower ''Step 4 exited with code 1'')"
    by code_simp
  show ?thesis
    using h1 no_success_log [of plain_failure_files] h3
      heuristic_tier_total [OF h1 no_success_log h3 h4, of remdups]
    by blast
qed

text \<open>
  Claim C2, as stated, fails for a text that holds a signature of the specialized tier:
  with no generative service configured, the result for the log with the DNS failure is
  of kind \<open>mongodb_specialized\<close>, not of kind \<open>local\<close>.
\<close>

theorem heuristic_tier_yields_to_specialized:
  "map_sum id analysis_type
     (snd (analyze_failure remdups no_llm dns_failure_files ''logs/failure/build_7.txt'' None))
   = Inr ''mongodb_specialized''"
proof -
  obtain r where "analyze_failure remdups no_llm dns_failure_files
              ''logs/failure/build_7.txt'' None = ([], Inr r)"
    and "analysis_type r = ''mongodb_specialized''"
    using analyze_failure_specialized
            [OF dns_log_readable no_success_log dns_signature dns_log_has_signature]
    by blast
  then show ?thesis by simp
qed

text \<open>
  Claim C3. When the failure log cannot be read, \<open>analyze_failure\<close> returns no result
  and no error field: the error raised by \<open>open\<close> leaves the function. The second
  theorem is the call on a path that does not exist.
\<close>

theorem analyze_failure_raises_on_unreadable_log:
  assumes "read_text fs fpath = Inl e"
  shows "analyze_failure list_of_set svc fs fpath spath = ([], Inl e)"
  using assms by (simp add: analyze_failure_def)

theorem analyze_failure_raises_on_unreadable_log_witness:
  "read_text Map.empty ''missing.txt'' = Inl (FileNotFoundError ''missing.txt'')
   \<and> analyze_failure remdups no_llm Map.empty ''missing.txt'' None
     = ([], Inl (FileNotFoundError ''missing.txt''))"
proof -
  have h: "read_text Map.empty ''missing.txt'' = Inl (FileNotFoundError ''missing.txt'')"
    by (simp add: read_text_def)
  show ?thesis
    using h analyze_failure_raises_on_unreadable_log [OF h, of remdups no_llm None]
    by (rule conjI)
qed

end
